theory Spec2Isabelle
  imports Complex_Main
begin

text \<open>
  The payment confirmation pipeline of the donation back end: \<^verbatim>\<open>DonationService\<close>
  (\<^verbatim>\<open>createDonation\<close>, \<^verbatim>\<open>handlePixWebhook\<close>, \<^verbatim>\<open>findByTxId\<close>), the \<^verbatim>\<open>Donation\<close> model
  (\<^verbatim>\<open>convertToDate\<close>, \<^verbatim>\<open>save\<close>), \<^verbatim>\<open>PixService\<close>, \<^verbatim>\<open>SSEService\<close> and the route
  \<^verbatim>\<open>POST /api/webhook/pix\<close>. Every \<^verbatim>\<open>async\<close> function is taken as running to its end: a call
  is a function from the state before it to its result and the state after it, an exception
  is the left summand of the result, and what the call finds outside the code (gateway,
  partner registry, store failures, clock) is an argument of it.
\<close>

section \<open>JavaScript values\<close>

text \<open>
  The donation pipeline is JavaScript: request bodies and gateway replies are JSON, and the
  code tests them with \<^verbatim>\<open>!x\<close>, \<^verbatim>\<open>parseFloat\<close> and \<^verbatim>\<open>===\<close>. A number is
  \<open>NaN\<close>, an infinity or a finite value, kept as the rational it denotes (\<open>-0\<close> is \<open>Fin 0\<close>:
  the code only tests numbers for truthiness and \<^verbatim>\<open><= 0\<close>, which do not tell them apart).
  \<open>Obj s\<close> is an object or array whose string conversion is \<open>s\<close>.
\<close>

datatype jsnum = NaN | Infinity | NegInfinity | Fin rat

datatype jsval = Undefined | Null | Bool bool | Num jsnum | Str string | Obj string

fun num_truthy :: "jsnum \<Rightarrow> bool" where
  "num_truthy NaN = False"
| "num_truthy Infinity = True"
| "num_truthy NegInfinity = True"
| "num_truthy (Fin q) = (q \<noteq> 0)"

fun truthy :: "jsval \<Rightarrow> bool" where
  "truthy Undefined = False"
| "truthy Null = False"
| "truthy (Bool b) = b"
| "truthy (Num n) = num_truthy n"
| "truthy (Str s) = (s \<noteq> [])"
| "truthy (Obj s) = True"

text \<open>A field that is a string or absent: \<open>None\<close> is \<^verbatim>\<open>undefined\<close>, and the empty string is falsy.\<close>

fun str_truthy :: "string option \<Rightarrow> bool" where
  "str_truthy None = False"
| "str_truthy (Some s) = (s \<noteq> [])"

text \<open>\<^verbatim>\<open>n <= 0\<close>: every comparison with \<open>NaN\<close> is false.\<close>

fun le_zero :: "jsnum \<Rightarrow> bool" where
  "le_zero NaN = False"
| "le_zero Infinity = False"
| "le_zero NegInfinity = True"
| "le_zero (Fin q) = (q \<le> 0)"

text \<open>\<^verbatim>\<open>/\D/g\<close> matches every character that is not one of the ten ASCII digits.\<close>

definition is_digit :: "char \<Rightarrow> bool" where
  "is_digit c = (c \<in> set ''0123456789'')"

definition remove_non_digits :: "string \<Rightarrow> string" where
  "remove_non_digits s = filter is_digit s"

section \<open>SSEService: the notification hub\<close>

text \<open>
  \<^verbatim>\<open>this.clients\<close> is a \<^verbatim>\<open>Map\<close> from txId to \<^verbatim>\<open>{ res, keepAlive }\<close>. A connection is named
  by a number; the interval timer that \<^verbatim>\<open>addClient\<close> starts for it is named by the number of
  its connection. \<open>timers\<close> is the set of interval timers that have been started and not
  cleared, \<open>written\<close> the chunks passed to \<^verbatim>\<open>res.write\<close>, in order, with the connection written
  to, and \<open>close_handlers\<close> the closure registered with \<^verbatim>\<open>req.on("close", ...)\<close>: the txId and
  the timer it captured. Response headers are not modelled.
\<close>

record sse_client =
  res :: nat
  keepAlive :: nat

text \<open>The object the webhook route hands to \<^verbatim>\<open>notifyDonationPaid\<close>.\<close>

record paid_notice =
  n_txid :: string
  n_valor :: jsnum
  n_pagador :: string
  n_horario :: "int option"
  n_status :: string

text \<open>
  \<^verbatim>\<open>eventData.donation\<close>. The route's object has no \<^verbatim>\<open>txId\<close>, \<^verbatim>\<open>amount\<close>, \<^verbatim>\<open>donorName\<close>,
  \<^verbatim>\<open>infoPagador\<close> or \<^verbatim>\<open>createdAt\<close> key, so \<^verbatim>\<open>donation.txId\<close> is \<^verbatim>\<open>undefined\<close>,
  \<^verbatim>\<open>donation.amount || donation.valor\<close> is \<^verbatim>\<open>valor\<close>, the payer falls through to the literal
  "Desconhecido" and \<^verbatim>\<open>donation.createdAt || donation.horario\<close> is \<^verbatim>\<open>horario\<close>.
\<close>

record event_donation =
  e_txid :: "string option"
  e_valor :: jsnum
  e_pagador :: string
  e_horario :: "int option"
  e_status :: string

datatype chunk =
    Established string
  | Ping
  | EventName string
  | EventData string event_donation

record sse_service =
  clients :: "string \<rightharpoonup> sse_client"
  timers :: "nat set"
  written :: "(nat \<times> chunk) list"
  close_handlers :: "nat \<rightharpoonup> (string \<times> nat)"

definition new_SSEService :: sse_service where
  "new_SSEService = \<lparr>clients = Map.empty, timers = {}, written = [], close_handlers = Map.empty\<rparr>"

definition addClient :: "string \<Rightarrow> nat \<Rightarrow> sse_service \<Rightarrow> sse_service" where
  "addClient txId conn s =
     s\<lparr>written := written s @ [(conn, Established txId)],
       timers := insert conn (timers s),
       clients := (clients s)(txId \<mapsto> \<lparr>res = conn, keepAlive = conn\<rparr>),
       close_handlers := (close_handlers s)(conn \<mapsto> (txId, conn))\<rparr>"

text \<open>The connection's \<^verbatim>\<open>close\<close> event runs the handler registered for it, if any.\<close>

definition on_close :: "nat \<Rightarrow> sse_service \<Rightarrow> sse_service" where
  "on_close conn s =
     (case close_handlers s conn of
        None \<Rightarrow> s
      | Some (txId, keepAlive_timer) \<Rightarrow>
          s\<lparr>timers := timers s - {keepAlive_timer},
            clients := (clients s)(txId := None)\<rparr>)"

text \<open>One firing of a connection's interval timer, while it is active.\<close>

definition keepAlive_tick :: "nat \<Rightarrow> sse_service \<Rightarrow> sse_service" where
  "keepAlive_tick timer s =
     (if timer \<in> timers s then s\<lparr>written := written s @ [(timer, Ping)]\<rparr> else s)"

definition notify_one :: "paid_notice \<Rightarrow> sse_service \<Rightarrow> sse_service" where
  "notify_one donation s =
     (case clients s (n_txid donation) of
        None \<Rightarrow> s
      | Some client \<Rightarrow>
          s\<lparr>written := written s @
              [(res client, EventName ''donationPaid''),
               (res client, EventData ''donationPaid''
                  \<lparr>e_txid = None, e_valor = n_valor donation, e_pagador = ''Desconhecido'',
                   e_horario = n_horario donation, e_status = n_status donation\<rparr>)]\<rparr>)"

definition notifyDonationPaid :: "paid_notice list \<Rightarrow> sse_service \<Rightarrow> sse_service" where
  "notifyDonationPaid donations s = (if donations = [] then s else fold notify_one donations s)"

text \<open>The \<^verbatim>\<open>donationPaid\<close> events a connection has been sent.\<close>

fun is_paid_event :: "chunk \<Rightarrow> bool" where
  "is_paid_event (EventData name d) = (name = ''donationPaid'')"
| "is_paid_event c = False"

definition deliveries :: "nat \<Rightarrow> sse_service \<Rightarrow> nat" where
  "deliveries conn s = length (filter (\<lambda>(c, k). c = conn \<and> is_paid_event k) (written s))"

section \<open>Errors\<close>

text \<open>
  The four classes of \<^verbatim>\<open>utils/Errors.js\<close>, and the engine's \<^verbatim>\<open>TypeError\<close>. A message is kept
  as the template that builds it, with the values interpolated into it:
  \<^item> \<open>TodosCamposObrigatorios\<close>: "Todos os campos sao obrigatorios!";
  \<^item> \<open>ValorMaiorQueZero\<close>: "O valor da doacao deve ser maior que 0.";
  \<^item> \<open>CPFInvalido\<close>: "CPF Invalido!"; \<open>CPFNaoCadastrado\<close>: "CPF nao cadastrado";
  \<^item> \<open>FalhaGerarCobranca e\<close>: "Falha ao gerar cobranca Pix: $\{error\}";
  \<^item> \<open>TxIdAusente\<close>: "Id de transacao ausente no payload do webhook";
  \<^item> \<open>DadosInsuficientes d v\<close>: "Dados insuficientes ou invalidos da EFI para criar nova
    doacao: $\{JSON.stringify(devedorEfi)\} - R$ $\{valorOriginal\}";
  \<^item> \<open>ErroObterDetalhes e\<close>: "Erro ao obter detalhes da cobranca Pix: $\{error\}";
  \<^item> \<open>ErroInesperadoTransacao t\<close>: "Erro inesperado ao processar transacao $\{txId\}";
  \<^item> \<open>ErroBuscarPorTxId x\<close>: "Erro ao buscar doacao por TxId: $\{error\}";
  \<^item> \<open>ErroBuscarParceiro x\<close>: "Erro ao buscar parceiro: $\{error\}";
  \<^item> \<open>ErroSalvarDoacao x\<close>: "Erro ao salvar a doacao: $\{error.message\}";
  \<^item> \<open>ErroInternoPrepararPix m\<close>: "Erro interno ao preparar Pix: $\{error.message || JSON.stringify(error)\}";
  \<^item> \<open>FalhaDadosPixEssenciais\<close>: "Falha ao obter dados Pix essenciais da Efi. Resposta
    incompleta ou inesperada.";
  \<^item> \<open>ErroApiEfi n d s\<close>: "Erro API Efi ao consultar Pix: $\{errorName\} - $\{errorDetail\}
    (Status: $\{error.response.status\})";
  \<^item> \<open>ErroInesperadoConsultarPix x\<close>: "Erro inesperado ao consultar Pix: $\{error.message ||
    "Erro desconhecido"\}";
  \<^item> \<open>CannotReadProperty p\<close>, \<open>NotAFunction p\<close>, \<open>CannotConvertToPrimitive\<close>: the engine's
    texts for reading property \<open>p\<close> of \<^verbatim>\<open>undefined\<close> or \<^verbatim>\<open>null\<close>, for calling a property \<open>p\<close>
    that is not a function, and for converting to a string an object that has no usable
    \<^verbatim>\<open>toString\<close> or \<^verbatim>\<open>valueOf\<close>;
  \<^item> \<open>Foreign x\<close>: a text made outside this code (by the gateway's SDK).
\<close>

record devedor =
  dv_cpf :: "string option"
  dv_nome :: "string option"

datatype error =
    ValidationError message
  | NotFoundError message
  | DatabaseError message
  | ExternalError message
  | TypeError message
and message =
    TodosCamposObrigatorios
  | ValorMaiorQueZero
  | CPFInvalido
  | CPFNaoCadastrado
  | FalhaGerarCobranca error
  | TxIdAusente
  | DadosInsuficientes "devedor option" jsval
  | ErroObterDetalhes error
  | ErroInesperadoTransacao string
  | ErroBuscarPorTxId string
  | ErroBuscarParceiro string
  | ErroSalvarDoacao string
  | ErroInternoPrepararPix message
  | FalhaDadosPixEssenciais
  | ErroApiEfi string string int
  | ErroInesperadoConsultarPix string
  | CannotReadProperty string
  | NotAFunction string
  | CannotConvertToPrimitive
  | Foreign string

fun is_ValidationError :: "error \<Rightarrow> bool" where
  "is_ValidationError (ValidationError m) = True"
| "is_ValidationError e = False"

fun is_NotFoundError :: "error \<Rightarrow> bool" where
  "is_NotFoundError (NotFoundError m) = True"
| "is_NotFoundError e = False"

fun is_DatabaseError :: "error \<Rightarrow> bool" where
  "is_DatabaseError (DatabaseError m) = True"
| "is_DatabaseError e = False"


text \<open>
  \<^verbatim>\<open>error.response\<close>: the constructors of \<^verbatim>\<open>Errors.js\<close> set \<^verbatim>\<open>name\<close>, \<^verbatim>\<open>statusCode\<close> and
  \<^verbatim>\<open>originalError\<close>, and a \<^verbatim>\<open>TypeError\<close> has none either: the property is \<^verbatim>\<open>undefined\<close> on
  every error these functions can throw.
\<close>

fun has_response :: "error \<Rightarrow> bool" where
  "has_response e = False"

section \<open>The txid of a webhook payload\<close>

text \<open>
  The \<^verbatim>\<open>txid\<close> of an element of the webhook body is whatever JSON put there. \<open>Falsy r\<close> is an
  absent \<^verbatim>\<open>txid\<close> or a falsy value that is not a string (\<^verbatim>\<open>null\<close>, \<^verbatim>\<open>false\<close>, \<^verbatim>\<open>0\<close>), with
  its string conversion \<open>r\<close>; \<open>Text s\<close> is a string (falsy when empty); \<open>Other r\<close> is a truthy
  value that is not a string and converts to the string \<open>r\<close> (a number, \<^verbatim>\<open>true\<close>, an array, a
  plain object); \<open>Unprintable\<close> is a truthy object whose conversion to a string throws, such
  as \<^verbatim>\<open>{"toString": 1}\<close>. \<open>txid_string\<close> is the conversion a template literal
  \<^verbatim>\<open>`... ${txId} ...`\<close> and \<^verbatim>\<open>Array.prototype.join\<close> make.
\<close>

datatype txid_value = Falsy string | Text string | Other string | Unprintable

fun txid_truthy :: "txid_value \<Rightarrow> bool" where
  "txid_truthy (Falsy r) = False"
| "txid_truthy (Text s) = (s \<noteq> [])"
| "txid_truthy (Other r) = True"
| "txid_truthy Unprintable = True"

fun txid_string :: "txid_value \<Rightarrow> error + string" where
  "txid_string (Falsy r) = Inr r"
| "txid_string (Text s) = Inr s"
| "txid_string (Other r) = Inr r"
| "txid_string Unprintable = Inl (TypeError CannotConvertToPrimitive)"

section \<open>The world outside the code\<close>

text \<open>The gateway's reply to \<^verbatim>\<open>pixDetailCharge\<close>; \<open>cd_valor\<close> is \<^verbatim>\<open>valor.original\<close> when the
  \<^verbatim>\<open>valor\<close> object is there, and \<open>None\<close> when the reply has no \<^verbatim>\<open>valor\<close>; \<open>cd_loc\<close> is
  \<^verbatim>\<open>loc?.id\<close>.\<close>

record charge_details =
  cd_txid :: string
  cd_status :: string
  cd_valor :: "jsval option"
  cd_devedor :: "devedor option"
  cd_loc :: "int option"
  cd_location :: "string option"
  cd_pixCopiaECola :: "string option"

text \<open>The gateway's reply to \<^verbatim>\<open>pixCreateCharge\<close>: \<^verbatim>\<open>loc\<close> and \<^verbatim>\<open>calendario\<close> are objects, named
  here by their \<^verbatim>\<open>id\<close> and \<^verbatim>\<open>criacao\<close>, or absent.\<close>

record charge_response =
  cr_txid :: "string option"
  cr_loc :: "int option"
  cr_location :: "string option"
  cr_pixCopiaECola :: "string option"
  cr_calendario :: "string option"

text \<open>The body \<^verbatim>\<open>createImmediatePixCharge\<close> sends.\<close>

record pix_body =
  calendario_expiracao :: nat
  devedor_cpf :: string
  devedor_nome :: string
  valor_original :: string
  chave :: "string option"
  solicitacaoPagador :: string

text \<open>An error thrown by the gateway's SDK: \<open>api_error\<close> is \<^verbatim>\<open>error.response.data\<close> when
  \<^verbatim>\<open>error.response && error.response.data\<close> holds, with the name and the detail the \<^verbatim>\<open>||\<close>
  chains of \<^verbatim>\<open>getPixDetails\<close> pick from it; \<open>sdk_message\<close> is \<^verbatim>\<open>error.message\<close>, or
  \<^verbatim>\<open>JSON.stringify(error)\<close> where the code falls back on it.\<close>

record efi_error =
  api_error :: "(string \<times> string) option"
  response_status :: int
  sdk_message :: string

record partner =
  p_name :: string
  p_cim :: "string option"

text \<open>A Firestore timestamp (\<^verbatim>\<open>_seconds\<close>, \<^verbatim>\<open>_nanoseconds\<close>).\<close>

record timestamp =
  seconds :: int
  nanoseconds :: int

text \<open>
  What a call finds outside the code: the two builtins that depend on floating point
  (\<^verbatim>\<open>parseFloat\<close> on a string, \<^verbatim>\<open>toFixed(2)\<close>), \<^verbatim>\<open>uuidv4()\<close>, \<^verbatim>\<open>process.env.GN_PIX_KEY\<close>,
  the gateway's two operations (the details call with the txid it is given, whatever value
  that is), the partner registry's query by exact tax id (\<open>Inl\<close>: the query throws), whether
  the store's query by txId or a write throws (and with which text), and the time the store
  gives a server timestamp.
\<close>

record env =
  parseFloat_string :: "string \<Rightarrow> jsnum"
  toFixed2 :: "jsnum \<Rightarrow> string"
  uuidv4 :: string
  GN_PIX_KEY :: "string option"
  pixCreateCharge :: "string \<Rightarrow> pix_body \<Rightarrow> efi_error + charge_response"
  pixDetailCharge :: "txid_value \<Rightarrow> efi_error + charge_details"
  partners_where_cpf :: "string \<Rightarrow> string + partner option"
  donations_query_throws :: "txid_value \<Rightarrow> string option"
  donations_write_throws :: "string option"
  serverTimestamp :: timestamp

text \<open>\<^verbatim>\<open>parseFloat\<close> converts its argument to a string first; a number's string parses back to
  the number, and the strings of \<^verbatim>\<open>undefined\<close>, \<^verbatim>\<open>null\<close>, \<^verbatim>\<open>true\<close> and \<^verbatim>\<open>false\<close> parse to
  \<open>NaN\<close>.\<close>

fun parseFloat :: "env \<Rightarrow> jsval \<Rightarrow> jsnum" where
  "parseFloat env (Num n) = n"
| "parseFloat env (Str s) = parseFloat_string env s"
| "parseFloat env (Obj s) = parseFloat_string env s"
| "parseFloat env v = NaN"

section \<open>The donation store and the Donation model\<close>

text \<open>A document of the \<^verbatim>\<open>donations\<close> collection (the keys of \<^verbatim>\<open>dataToSave\<close>).\<close>

record donation_doc =
  doc_donorCPF :: string
  doc_donorName :: string
  doc_donorCIM :: "string option"
  doc_amount :: jsnum
  doc_txId :: string
  doc_locId :: "int option"
  doc_qrCode :: "string option"
  doc_copyPaste :: "string option"
  doc_status :: string
  doc_createdAt :: timestamp

text \<open>
  The collection, in the order a query returns its documents, each with its id (a number
  stands for the store's opaque id, which is a non-empty string and so truthy), and the log
  of the charge requests sent to the gateway.
\<close>

record world =
  donations :: "(nat \<times> donation_doc) list"
  charge_requests :: "(string \<times> pix_body) list"

text \<open>An instance of the \<^verbatim>\<open>Donation\<close> class (each field carries the prefix \<open>d_\<close>): \<open>d_createdAt\<close> is a \<^verbatim>\<open>Date\<close> (milliseconds since
  the epoch) or \<^verbatim>\<open>undefined\<close>.\<close>

record Donation =
  d_id :: "nat option"
  d_donorCPF :: string
  d_donorName :: string
  d_donorCIM :: "string option"
  d_amount :: jsnum
  d_txId :: string
  d_locId :: "int option"
  d_qrCode :: "string option"
  d_copyPaste :: "string option"
  d_status :: string
  d_createdAt :: "int option"

text \<open>What the constructor can be given as \<^verbatim>\<open>createdAt\<close>.\<close>

datatype created_arg = Timestamp timestamp | ServerTimestampSentinel | DateObject int

text \<open>
  \<^verbatim>\<open>new Date(t._seconds * 1000 + t._nanoseconds / 1_000_000)\<close>: a \<^verbatim>\<open>Date\<close> holds a whole
  number of milliseconds, and the constructor drops the fraction (towards zero). The sum is
  taken exactly.
\<close>

definition trunc_div :: "int \<Rightarrow> int \<Rightarrow> int" where
  "trunc_div a b = (if 0 \<le> a then a div b else - ((- a) div b))"

fun convertToDate :: "created_arg \<Rightarrow> int option" where
  "convertToDate (Timestamp t) = Some (trunc_div (seconds t * 1000000000 + nanoseconds t) 1000000)"
| "convertToDate (DateObject d) = Some d"
| "convertToDate ServerTimestampSentinel = None"

text \<open>\<^verbatim>\<open>Timestamp.fromDate\<close>: whole seconds and the remaining milliseconds as nanoseconds.\<close>

definition fromDate :: "int \<Rightarrow> timestamp" where
  "fromDate ms = \<lparr>seconds = ms div 1000, nanoseconds = (ms mod 1000) * 1000000\<rparr>"

text \<open>\<^verbatim>\<open>new DonationModel({ id: doc.id, ...doc.data() })\<close>.\<close>

definition Donation_of_doc :: "env \<Rightarrow> nat \<Rightarrow> donation_doc \<Rightarrow> Donation" where
  "Donation_of_doc env i d =
     \<lparr>d_id = Some i, d_donorCPF = doc_donorCPF d, d_donorName = doc_donorName d,
      d_donorCIM = doc_donorCIM d, d_amount = parseFloat env (Num (doc_amount d)),
      d_txId = doc_txId d, d_locId = doc_locId d, d_qrCode = doc_qrCode d,
      d_copyPaste = doc_copyPaste d, d_status = doc_status d,
      d_createdAt = convertToDate (Timestamp (doc_createdAt d))\<rparr>"

text \<open>\<^verbatim>\<open>dataToSave\<close>, with the server timestamp already put where the sentinel stands.\<close>

definition dataToSave :: "env \<Rightarrow> Donation \<Rightarrow> donation_doc" where
  "dataToSave env d =
     \<lparr>doc_donorCPF = d_donorCPF d, doc_donorName = d_donorName d, doc_donorCIM = d_donorCIM d,
      doc_amount = d_amount d, doc_txId = d_txId d, doc_locId = d_locId d, doc_qrCode = d_qrCode d,
      doc_copyPaste = d_copyPaste d, doc_status = d_status d,
      doc_createdAt = (case d_createdAt d of Some date \<Rightarrow> fromDate date | None \<Rightarrow> serverTimestamp env)\<rparr>"

text \<open>\<^verbatim>\<open>doc(id).set(data, { merge: true })\<close> with every key of the document in \<open>data\<close>: the
  document of that id gets the data, and is created when there is none.\<close>

definition set_doc :: "nat \<Rightarrow> donation_doc \<Rightarrow> (nat \<times> donation_doc) list \<Rightarrow> (nat \<times> donation_doc) list" where
  "set_doc i data docs =
     (if i \<in> fst ` set docs then map (\<lambda>(j, x). if j = i then (j, data) else (j, x)) docs
      else docs @ [(i, data)])"

text \<open>\<^verbatim>\<open>add\<close> gives the document an id no document has.\<close>

definition auto_id :: "(nat \<times> donation_doc) list \<Rightarrow> nat" where
  "auto_id docs = Suc (foldr max (map fst docs) 0)"

definition save :: "env \<Rightarrow> Donation \<Rightarrow> world \<Rightarrow> (error + Donation) \<times> world" where
  "save env d w =
     (case donations_write_throws env of
        Some text \<Rightarrow> (Inl (DatabaseError (ErroSalvarDoacao text)), w)
      | None \<Rightarrow>
          (case d_id d of
             Some i \<Rightarrow> (Inr d, w\<lparr>donations := set_doc i (dataToSave env d) (donations w)\<rparr>)
           | None \<Rightarrow>
               (Inr (d\<lparr>d_id := Some (auto_id (donations w))\<rparr>),
                w\<lparr>donations := donations w @
                    [(auto_id (donations w), (dataToSave env d)\<lparr>doc_createdAt := serverTimestamp env\<rparr>)]\<rparr>)))"

text \<open>\<^verbatim>\<open>where("txId", "==", txId).limit(1)\<close>: the first document whose \<^verbatim>\<open>txId\<close> equals the value
  asked for. A stored \<^verbatim>\<open>txId\<close> is a string, and equals no value of another type.\<close>

definition findByTxId :: "env \<Rightarrow> world \<Rightarrow> txid_value \<Rightarrow> error + Donation option" where
  "findByTxId env w t =
     (case donations_query_throws env t of
        Some text \<Rightarrow> Inl (DatabaseError (ErroBuscarPorTxId text))
      | None \<Rightarrow>
          (case find (\<lambda>(i, d). Text (doc_txId d) = t) (donations w) of
             None \<Rightarrow> Inr None
           | Some (i, d) \<Rightarrow> Inr (Some (Donation_of_doc env i d))))"

definition findByExactCPF :: "env \<Rightarrow> string \<Rightarrow> error + partner option" where
  "findByExactCPF env cpf =
     (case partners_where_cpf env cpf of
        Inl text \<Rightarrow> Inl (DatabaseError (ErroBuscarParceiro text))
      | Inr p \<Rightarrow> Inr p)"

section \<open>PixService: the gateway client\<close>

record pix_data =
  pd_amount :: jsval
  pd_donorCPF :: string
  pd_donorName :: string

record pix_charge =
  pc_txId :: string
  pc_locId :: int
  pc_qrCode :: string
  pc_copyPaste :: string
  pc_createdAt :: string

text \<open>
  \<^verbatim>\<open>chargeResponse.loc || chargeResponse.loc.id\<close> is the \<^verbatim>\<open>loc\<close> object when there is one and
  throws a \<^verbatim>\<open>TypeError\<close> when there is none; \<^verbatim>\<open>calendario\<close> likewise. Every error raised in
  the \<^verbatim>\<open>try\<close>, the function's own \<^verbatim>\<open>ExternalError\<close> included, is caught and wrapped in a new
  \<^verbatim>\<open>ExternalError\<close>. The request is logged in the world before the gateway answers.
  The payer's note is "Doacao Realizada por: " and the name (the text has a cedilla and a
  tilde).
\<close>

definition createImmediatePixCharge :: "env \<Rightarrow> pix_data \<Rightarrow> world \<Rightarrow> (error + pix_charge) \<times> world" where
  "createImmediatePixCharge env pixData w =
     (let uniqueTxId = filter (\<lambda>c. c \<noteq> CHR ''-'') (uuidv4 env);
          pixBody = \<lparr>calendario_expiracao = 3600,
                     devedor_cpf = pd_donorCPF pixData,
                     devedor_nome = pd_donorName pixData,
                     valor_original = toFixed2 env (parseFloat env (pd_amount pixData)),
                     chave = GN_PIX_KEY env,
                     solicitacaoPagador = ''Doacao Realizada por: '' @ pd_donorName pixData\<rparr>;
          w' = w\<lparr>charge_requests := charge_requests w @ [(uniqueTxId, pixBody)]\<rparr>
      in case pixCreateCharge env uniqueTxId pixBody of
           Inl error \<Rightarrow> (Inl (ExternalError (ErroInternoPrepararPix (Foreign (sdk_message error)))), w')
         | Inr chargeResponse \<Rightarrow>
             (case cr_loc chargeResponse of
                None \<Rightarrow> (Inl (ExternalError (ErroInternoPrepararPix (CannotReadProperty ''id''))), w')
              | Some locId \<Rightarrow>
                  (case cr_calendario chargeResponse of
                     None \<Rightarrow> (Inl (ExternalError (ErroInternoPrepararPix (CannotReadProperty ''criacao''))), w')
                   | Some createdAt \<Rightarrow>
                       (case (cr_txid chargeResponse, cr_location chargeResponse, cr_pixCopiaECola chargeResponse) of
                          (Some txId, Some qrCodeImage, Some copyPastePix) \<Rightarrow>
                            if txId = [] \<or> qrCodeImage = [] \<or> copyPastePix = []
                            then (Inl (ExternalError (ErroInternoPrepararPix FalhaDadosPixEssenciais)), w')
                            else (Inr \<lparr>pc_txId = txId, pc_locId = locId, pc_qrCode = qrCodeImage,
                                       pc_copyPaste = copyPastePix, pc_createdAt = createdAt\<rparr>, w')
                        | _ \<Rightarrow> (Inl (ExternalError (ErroInternoPrepararPix FalhaDadosPixEssenciais)), w')))))"

definition getPixDetails :: "env \<Rightarrow> txid_value \<Rightarrow> error + charge_details" where
  "getPixDetails env txId =
     (case pixDetailCharge env txId of
        Inr response \<Rightarrow> Inr response
      | Inl error \<Rightarrow>
          (case api_error error of
             Some (errorName, errorDetail) \<Rightarrow>
               Inl (ExternalError (ErroApiEfi errorName errorDetail (response_status error)))
           | None \<Rightarrow>
               Inl (ExternalError (ErroInesperadoConsultarPix
                 (if sdk_message error = [] then ''Erro desconhecido'' else sdk_message error)))))"

section \<open>DonationService\<close>

record donation_input =
  in_donorCPF :: jsval
  in_amount :: jsval

text \<open>What \<^verbatim>\<open>createDonation\<close> returns: \<open>v_donorCPF\<close> is the caller's \<^verbatim>\<open>donorCPF\<close>.\<close>

record charge_view =
  v_donorCPF :: jsval
  v_donorName :: string
  v_donorCIM :: "string option"
  v_amount :: jsnum
  v_txId :: string
  v_locId :: int
  v_qrCode :: string
  v_copyPaste :: string
  v_status :: string
  v_createdAt :: string

text \<open>
  \<^verbatim>\<open>donorCPF.replace\<close> is a function on a string alone: on any other truthy value the call
  throws a \<^verbatim>\<open>TypeError\<close>, outside the \<^verbatim>\<open>try\<close>.
\<close>

definition createDonation :: "env \<Rightarrow> donation_input \<Rightarrow> world \<Rightarrow> (error + charge_view) \<times> world" where
  "createDonation env data w =
     (let donorCPF = in_donorCPF data; amount = in_amount data in
      if \<not> truthy donorCPF \<or> \<not> truthy amount
      then (Inl (ValidationError TodosCamposObrigatorios), w)
      else if le_zero (parseFloat env amount)
      then (Inl (ValidationError ValorMaiorQueZero), w)
      else (case donorCPF of
         Str s \<Rightarrow>
           (let cleanedCPF = remove_non_digits s in
            if length cleanedCPF \<noteq> 11 then (Inl (ValidationError CPFInvalido), w)
            else (case findByExactCPF env cleanedCPF of
               Inl error \<Rightarrow> (Inl error, w)
             | Inr None \<Rightarrow> (Inl (NotFoundError CPFNaoCadastrado), w)
             | Inr (Some existsPartner) \<Rightarrow>
                 (case createImmediatePixCharge env
                         \<lparr>pd_amount = amount, pd_donorCPF = cleanedCPF, pd_donorName = p_name existsPartner\<rparr> w of
                    (Inr pixChargeDetails, w') \<Rightarrow>
                      (Inr \<lparr>v_donorCPF = donorCPF,
                            v_donorName = p_name existsPartner,
                            v_donorCIM = p_cim existsPartner,
                            v_amount = parseFloat env amount,
                            v_txId = pc_txId pixChargeDetails,
                            v_locId = pc_locId pixChargeDetails,
                            v_qrCode = pc_qrCode pixChargeDetails,
                            v_copyPaste = pc_copyPaste pixChargeDetails,
                            v_status = ''AGUARDANDO_PAGAMENTO'',
                            v_createdAt = pc_createdAt pixChargeDetails\<rparr>, w')
                  | (Inl error, w') \<Rightarrow>
                      (if is_ValidationError error \<or> is_DatabaseError error then Inl error
                       else Inl (ExternalError (FalhaGerarCobranca error)), w'))))
       | _ \<Rightarrow> (Inl (TypeError (NotAFunction ''replace'')), w)))"

text \<open>The webhook payload: the code reads its \<^verbatim>\<open>txid\<close> alone.\<close>

record pix_payload =
  p_txid :: txid_value

text \<open>
  The \<^verbatim>\<open>try\<close> block of \<^verbatim>\<open>handlePixWebhook\<close>. \<^verbatim>\<open>efiChargeDetails.valor.original\<close> throws a
  \<^verbatim>\<open>TypeError\<close> when the reply has no \<^verbatim>\<open>valor\<close>, before the status is looked at.
  \<open>donation\<close> is what \<^verbatim>\<open>findByTxId\<close> returned.
\<close>

definition confirm_status ::
    "env \<Rightarrow> txid_value \<Rightarrow> Donation option \<Rightarrow> world \<Rightarrow> (error + Donation option) \<times> world" where
  "confirm_status env txId donation w =
     (case getPixDetails env txId of
        Inl error \<Rightarrow> (Inl error, w)
      | Inr efiChargeDetails \<Rightarrow>
          (case cd_valor efiChargeDetails of
             None \<Rightarrow> (Inl (TypeError (CannotReadProperty ''original'')), w)
           | Some valorOriginal \<Rightarrow>
               (let officialStatus = cd_status efiChargeDetails;
                    devedorEfi = cd_devedor efiChargeDetails;
                    isPaymentConfirmed = (officialStatus = ''CONCLUIDA'')
                in if isPaymentConfirmed then
                     (case donation of
                        Some d \<Rightarrow>
                          if d_status d \<noteq> ''PAGA''
                          then (case save env (d\<lparr>d_status := ''PAGA''\<rparr>) w of
                                  (Inl error, w') \<Rightarrow> (Inl error, w')
                                | (Inr d', w') \<Rightarrow> (Inr (Some d'), w'))
                          else (Inr (Some d), w)
                      | None \<Rightarrow>
                          (let donorCPFFromEfi = (case devedorEfi of None \<Rightarrow> None | Some dv \<Rightarrow> dv_cpf dv);
                               donorNameFromEfi = (case devedorEfi of None \<Rightarrow> None | Some dv \<Rightarrow> dv_nome dv);
                               amountFromEfi = parseFloat env valorOriginal
                           in case (donorCPFFromEfi, donorNameFromEfi) of
                                (Some cpf, Some nome) \<Rightarrow>
                                  if cpf = [] \<or> nome = [] \<or> \<not> num_truthy amountFromEfi
                                  then (Inl (ValidationError (DadosInsuficientes devedorEfi valorOriginal)), w)
                                  else (case findByExactCPF env cpf of
                                     Inl error \<Rightarrow> (Inl error, w)
                                   | Inr existsPartner \<Rightarrow>
                                       (let donorCIM =
                                              (case existsPartner of
                                                 None \<Rightarrow> None
                                               | Some p \<Rightarrow> if str_truthy (p_cim p) then p_cim p else None);
                                            newDonation =
                                              \<lparr>d_id = None, d_donorCPF = cpf, d_donorName = nome,
                                               d_donorCIM = donorCIM,
                                               d_amount = parseFloat env (Num amountFromEfi),
                                               d_txId = cd_txid efiChargeDetails,
                                               d_locId = cd_loc efiChargeDetails,
                                               d_qrCode = cd_location efiChargeDetails,
                                               d_copyPaste = cd_pixCopiaECola efiChargeDetails,
                                               d_status = ''PAGA'',
                                               d_createdAt = convertToDate ServerTimestampSentinel\<rparr>
                                        in case save env newDonation w of
                                             (Inl error, w') \<Rightarrow> (Inl error, w')
                                           | (Inr d', w') \<Rightarrow> (Inr (Some d'), w')))
                              | _ \<Rightarrow> (Inl (ValidationError (DadosInsuficientes devedorEfi valorOriginal)), w)))
                   else
                     (case donation of
                        Some d \<Rightarrow>
                          if d_status d \<noteq> officialStatus
                          then (case save env (d\<lparr>d_status := officialStatus\<rparr>) w of
                                  (Inl error, w') \<Rightarrow> (Inl error, w')
                                | (Inr d', w') \<Rightarrow> (Inr (Some d'), w'))
                          else (Inr (Some d), w)
                      | None \<Rightarrow> (Inr None, w)))))"

text \<open>The \<^verbatim>\<open>catch\<close> block of \<^verbatim>\<open>handlePixWebhook\<close>: what it throws. Building the last message
  converts \<^verbatim>\<open>txId\<close> to a string, which itself throws for a txid that has no string
  conversion.\<close>

definition webhook_catch :: "txid_value \<Rightarrow> error \<Rightarrow> error" where
  "webhook_catch txId error =
     (if is_ValidationError error \<or> is_NotFoundError error \<or> is_DatabaseError error then error
      else if has_response error then ExternalError (ErroObterDetalhes error)
      else (case txid_string txId of
              Inl thrown \<Rightarrow> thrown
            | Inr text \<Rightarrow> DatabaseError (ErroInesperadoTransacao text)))"

definition handlePixWebhook :: "env \<Rightarrow> pix_payload \<Rightarrow> world \<Rightarrow> (error + Donation option) \<times> world" where
  "handlePixWebhook env rawWebhookPayload w =
     (let txId = p_txid rawWebhookPayload in
      if \<not> txid_truthy txId then (Inl (ValidationError TxIdAusente), w)
      else (case findByTxId env w txId of
              Inl error \<Rightarrow> (Inl error, w)
            | Inr donation \<Rightarrow>
                (case confirm_status env txId donation w of
                   (Inl error, w') \<Rightarrow> (Inl (webhook_catch txId error), w')
                 | (Inr result, w') \<Rightarrow> (Inr result, w'))))"

section \<open>The webhook route\<close>

text \<open>
  \<^verbatim>\<open>req.body\<close> and its \<^verbatim>\<open>pix\<close>, as the route finds them: \<^verbatim>\<open>req.body\<close> is \<^verbatim>\<open>undefined\<close> (reading
  \<^verbatim>\<open>pix\<close> throws), or \<^verbatim>\<open>pix\<close> is not an array, or it is an array. Whether a request can leave
  \<^verbatim>\<open>req.body\<close> undefined is the body parser's matter, not the route's: behind the
  \<^verbatim>\<open>express.json()\<close> of Express 4 a request without a body has \<^verbatim>\<open>req.body = {}\<close>, which is
  \<open>Body NotAnArray\<close> here. An element of the array is \<^verbatim>\<open>null\<close> (reading its \<^verbatim>\<open>txid\<close> throws), or
  a value whose \<^verbatim>\<open>txid\<close> can be read.
\<close>

datatype pix_element = Nullish | Element pix_payload

datatype pix_field = NotAnArray | Array "pix_element list"

datatype request_body = UndefinedBody | Body pix_field

text \<open>The reply texts of the route: "Nenhum dado de notificacao processado.", "Pix recebido e
  processado com sucesso.", "Pix recebido. n processados com sucesso. Falha em k transacoes:
  [...].", "Nenhuma notificacao Pix valida para processamento encontrada ou todas
  falharam." and "Erro interno ao processar o webhook.".\<close>

datatype reply_text =
    NenhumDadoProcessado
  | ProcessadoComSucesso
  | ProcessadosComFalhas nat nat "string list"
  | NenhumaValidaOuTodasFalharam
  | ErroInternoWebhook

record response =
  status_code :: nat
  sent :: reply_text

record loop_state =
  ls_world :: world
  successfulProcesses :: nat
  failedTxIds :: "string list"
  processedDonationsForSSE :: "paid_notice list"

text \<open>
  The \<^verbatim>\<open>for\<close> loop. The first component of the result is the error that left the loop, if
  one did; what the loop had written to the store by then stays written. Reading the
  \<^verbatim>\<open>txid\<close> of a \<^verbatim>\<open>null\<close> element throws before the per-item \<^verbatim>\<open>try\<close>. The per-item \<^verbatim>\<open>catch\<close>
  logs with the template literal \<^verbatim>\<open>`[Webhook Pix - TxId ${txId}] Erro ao processar:`\<close>, which
  throws out of the \<^verbatim>\<open>catch\<close> when the txid has no string conversion; otherwise the txid is
  pushed to \<^verbatim>\<open>failedTxIds\<close>, kept here as the string that \<^verbatim>\<open>join\<close> will make of it.
\<close>

fun pix_loop :: "env \<Rightarrow> pix_element list \<Rightarrow> loop_state \<Rightarrow> error option \<times> loop_state" where
  "pix_loop env [] st = (None, st)"
| "pix_loop env (Nullish # rest) st = (Some (TypeError (CannotReadProperty ''txid'')), st)"
| "pix_loop env (Element pixPayload # rest) st =
     (if \<not> txid_truthy (p_txid pixPayload) then pix_loop env rest st
      else (case handlePixWebhook env pixPayload (ls_world st) of
              (Inr donation, w') \<Rightarrow>
                pix_loop env rest
                  (st\<lparr>ls_world := w',
                      successfulProcesses := successfulProcesses st + 1,
                      processedDonationsForSSE :=
                        (case donation of
                           Some d \<Rightarrow>
                             if d_status d = ''PAGA''
                             then processedDonationsForSSE st @
                                    [\<lparr>n_txid = d_txId d, n_valor = d_amount d,
                                      n_pagador = d_donorName d, n_horario = d_createdAt d,
                                      n_status = d_status d\<rparr>]
                             else processedDonationsForSSE st
                         | None \<Rightarrow> processedDonationsForSSE st)\<rparr>)
            | (Inl error, w') \<Rightarrow>
                (case txid_string (p_txid pixPayload) of
                   Inl thrown \<Rightarrow> (Some thrown, st\<lparr>ls_world := w'\<rparr>)
                 | Inr text \<Rightarrow>
                     pix_loop env rest (st\<lparr>ls_world := w', failedTxIds := failedTxIds st @ [text]\<rparr>))))"

definition webhook_pix ::
    "env \<Rightarrow> request_body \<Rightarrow> world \<times> sse_service \<Rightarrow> response \<times> world \<times> sse_service" where
  "webhook_pix env req ws =
     (case ws of (w, sse) \<Rightarrow>
      (case req of
         UndefinedBody \<Rightarrow> (\<lparr>status_code = 500, sent = ErroInternoWebhook\<rparr>, w, sse)
       | Body NotAnArray \<Rightarrow> (\<lparr>status_code = 200, sent = NenhumDadoProcessado\<rparr>, w, sse)
       | Body (Array pixNotificationData) \<Rightarrow>
           if pixNotificationData = [] then (\<lparr>status_code = 200, sent = NenhumDadoProcessado\<rparr>, w, sse)
           else (case pix_loop env pixNotificationData
                        \<lparr>ls_world = w, successfulProcesses = 0, failedTxIds = [],
                         processedDonationsForSSE = []\<rparr> of
                   (Some error, st) \<Rightarrow>
                     (\<lparr>status_code = 500, sent = ErroInternoWebhook\<rparr>, ls_world st, sse)
                 | (None, st) \<Rightarrow>
                     (let sse' = (if processedDonationsForSSE st \<noteq> []
                                  then notifyDonationPaid (processedDonationsForSSE st) sse else sse)
                      in if 0 < successfulProcesses st \<and> failedTxIds st = []
                         then (\<lparr>status_code = 200, sent = ProcessadoComSucesso\<rparr>, ls_world st, sse')
                         else if 0 < successfulProcesses st \<and> failedTxIds st \<noteq> []
                         then (\<lparr>status_code = 200,
                                 sent = ProcessadosComFalhas (successfulProcesses st)
                                          (length (failedTxIds st)) (failedTxIds st)\<rparr>, ls_world st, sse')
                         else (\<lparr>status_code = 200, sent = NenhumaValidaOuTodasFalharam\<rparr>,
                               ls_world st, sse')))))"

section \<open>Runs of the system\<close>

text \<open>The two operations of the pipeline that can reach the store, each with what the call
  finds outside the code.\<close>

datatype event = Create env donation_input | Webhook env pix_payload

fun step :: "event \<Rightarrow> world \<Rightarrow> world" where
  "step (Create env data) w = snd (createDonation env data w)"
| "step (Webhook env payload) w = snd (handlePixWebhook env payload w)"

definition run :: "event list \<Rightarrow> world \<Rightarrow> world" where
  "run events w = fold step events w"

definition empty_world :: world where
  "empty_world = \<lparr>donations = [], charge_requests = []\<rparr>"

text \<open>The txids for which the run has processed a webhook (a payload whose txid is falsy is
  refused before anything is looked up).\<close>

fun webhook_txids :: "event list \<Rightarrow> txid_value set" where
  "webhook_txids [] = {}"
| "webhook_txids (Create env data # es) = webhook_txids es"
| "webhook_txids (Webhook env payload # es) =
     (if txid_truthy (p_txid payload) then insert (p_txid payload) (webhook_txids es)
      else webhook_txids es)"

text \<open>The gateway answers a details call with the charge that was asked for.\<close>

fun gateway_echoes :: "event \<Rightarrow> bool" where
  "gateway_echoes (Create env data) = True"
| "gateway_echoes (Webhook env payload) =
     (case pixDetailCharge env (p_txid payload) of
        Inl e \<Rightarrow> True
      | Inr d \<Rightarrow> Text (cd_txid d) = p_txid payload)"

text \<open>
  A webhook that the gateway confirms as paid and that \<^verbatim>\<open>handlePixWebhook\<close> processes without
  an error, in the state it finds; and the txids of the webhooks of a run that are such, each
  taken in the state the run has reached when it arrives.
\<close>

definition paid_and_processed :: "env \<Rightarrow> pix_payload \<Rightarrow> world \<Rightarrow> bool" where
  "paid_and_processed env payload w =
     ((case fst (handlePixWebhook env payload w) of Inl e \<Rightarrow> False | Inr r \<Rightarrow> True)
      \<and> (case pixDetailCharge env (p_txid payload) of
            Inl e \<Rightarrow> False
          | Inr d \<Rightarrow> cd_status d = ''CONCLUIDA''))"

fun confirmed :: "event \<Rightarrow> world \<Rightarrow> string set" where
  "confirmed (Create env data) w = {}"
| "confirmed (Webhook env payload) w =
     (case p_txid payload of
        Text t \<Rightarrow> if paid_and_processed env payload w then {t} else {}
      | _ \<Rightarrow> {})"

fun confirmed_txids :: "event list \<Rightarrow> world \<Rightarrow> string set" where
  "confirmed_txids [] w = {}"
| "confirmed_txids (e # es) w = confirmed e w \<union> confirmed_txids es (step e w)"

section \<open>A concrete scenario\<close>

text \<open>
  The end-to-end scenario of the specification, for evaluating the functions above: the
  partner registry knows tax id 12345678901 (Jane Doe), the gateway answers every charge
  request, and reports the charge asked for as completed, paid by Jane Doe, 50.00.
  \<open>parseFloat_plain\<close> is \<^verbatim>\<open>parseFloat\<close> on the strings the scenario uses: digits, then
  possibly a point and digits (what follows is ignored); a string that does not start with
  a digit gives \<open>NaN\<close> here. \<^verbatim>\<open>toFixed(2)\<close> is given for the one amount of the scenario.
\<close>

definition digits_value :: "string \<Rightarrow> nat" where
  "digits_value ds = foldl (\<lambda>a c. 10 * a + (of_char c - 48)) 0 ds"

definition parseFloat_plain :: "string \<Rightarrow> jsnum" where
  "parseFloat_plain s =
     (let ip = takeWhile is_digit s; rest = dropWhile is_digit s in
      if ip = [] then NaN
      else (case rest of
              [] \<Rightarrow> Fin (of_nat (digits_value ip))
            | c # fs \<Rightarrow>
                if c = CHR ''.''
                then (let fp = takeWhile is_digit fs
                      in Fin (of_nat (digits_value (ip @ fp)) / 10 ^ length fp))
                else Fin (of_nat (digits_value ip))))"

definition jane :: partner where
  "jane = \<lparr>p_name = ''Jane Doe'', p_cim = Some ''4321''\<rparr>"

definition paid_details :: "string \<Rightarrow> charge_details" where
  "paid_details t =
     \<lparr>cd_txid = t, cd_status = ''CONCLUIDA'', cd_valor = Some (Str ''50.00''),
      cd_devedor = Some \<lparr>dv_cpf = Some ''12345678901'', dv_nome = Some ''Jane Doe''\<rparr>,
      cd_loc = Some 7, cd_location = Some ''qr-abc123'', cd_pixCopiaECola = Some ''pix-abc123''\<rparr>"

text \<open>The gateway's answer for a txid it does not know, and a gateway that knows every string
  txid and answers with the details given for it.\<close>

definition not_found :: efi_error where
  "not_found = \<lparr>api_error = Some (''cobranca_nao_encontrada'', ''Cobranca nao encontrada''),
                 response_status = 404, sdk_message = ''Request failed with status code 404''\<rparr>"

definition gateway :: "(string \<Rightarrow> charge_details) \<Rightarrow> txid_value \<Rightarrow> efi_error + charge_details" where
  "gateway details v = (case v of Text t \<Rightarrow> Inr (details t) | _ \<Rightarrow> Inl not_found)"

definition scenario :: env where
  "scenario =
     \<lparr>parseFloat_string = parseFloat_plain,
      toFixed2 = (\<lambda>n. ''50.00''),
      uuidv4 = ''abc1-23'',
      GN_PIX_KEY = Some ''chave'',
      pixCreateCharge = (\<lambda>t body. Inr \<lparr>cr_txid = Some t, cr_loc = Some 7,
          cr_location = Some ''qr-abc123'', cr_pixCopiaECola = Some ''pix-abc123'',
          cr_calendario = Some ''2024-01-01T12:00:00Z''\<rparr>),
      pixDetailCharge = gateway paid_details,
      partners_where_cpf = (\<lambda>cpf. Inr (if cpf = ''12345678901'' then Some jane else None)),
      donations_query_throws = (\<lambda>t. None),
      donations_write_throws = None,
      serverTimestamp = \<lparr>seconds = 1700000000, nanoseconds = 123456000\<rparr>\<rparr>"

text \<open>A stored donation of the scenario, with the status given.\<close>

definition stored_donation :: "string \<Rightarrow> donation_doc" where
  "stored_donation st =
     \<lparr>doc_donorCPF = ''12345678901'', doc_donorName = ''Jane Doe'', doc_donorCIM = Some ''4321'',
      doc_amount = Fin 50, doc_txId = ''abc123'', doc_locId = Some 7,
      doc_qrCode = Some ''qr-abc123'', doc_copyPaste = Some ''pix-abc123'', doc_status = st,
      doc_createdAt = \<lparr>seconds = 1700000000, nanoseconds = 123456000\<rparr>\<rparr>"

section \<open>What the theorems speak of\<close>

text \<open>An element of the batch that is not \<^verbatim>\<open>null\<close> and whose \<^verbatim>\<open>txid\<close> has a string
  conversion.\<close>

fun printable :: "pix_element \<Rightarrow> bool" where
  "printable Nullish = False"
| "printable (Element p) = (p_txid p \<noteq> Unprintable)"

text \<open>The txIds of the rows of the store, and the rows stored under a txId.\<close>

definition txids :: "world \<Rightarrow> string set" where
  "txids w = doc_txId ` snd ` set (donations w)"

definition rows_for :: "string \<Rightarrow> world \<Rightarrow> donation_doc list" where
  "rows_for t w = filter (\<lambda>d. doc_txId d = t) (map snd (donations w))"

text \<open>
  Variations of the scenario: the webhook payload for transaction abc123, one without a
  txid, and one whose txid is an object with no string conversion; a gateway whose details
  call fails; one whose reply has no \<^verbatim>\<open>valor\<close> object; one that reports the amount "0.00"; one
  that reports the charge as removed; one that answers every call with the details of the
  charge zzz999; a store holding the donation of the scenario, not yet paid, and one holding
  it paid; a hub with connection 1 subscribed to abc123; the batch with the one payload; the
  two objects the route hands to the hub on the first call and on a replay; a
  charge-creation request.
\<close>

definition abc123 :: pix_payload where
  "abc123 = \<lparr>p_txid = Text ''abc123''\<rparr>"

definition no_txid :: pix_payload where
  "no_txid = \<lparr>p_txid = Falsy ''undefined''\<rparr>"

definition unprintable :: pix_payload where
  "unprintable = \<lparr>p_txid = Unprintable\<rparr>"

definition gateway_down :: env where
  "gateway_down = scenario\<lparr>pixDetailCharge := (\<lambda>v. Inl not_found)\<rparr>"

definition no_valor :: env where
  "no_valor = scenario\<lparr>pixDetailCharge := gateway (\<lambda>t. (paid_details t)\<lparr>cd_valor := None\<rparr>)\<rparr>"

definition zero_amount :: env where
  "zero_amount = scenario\<lparr>pixDetailCharge := gateway (\<lambda>t. (paid_details t)\<lparr>cd_valor := Some (Str ''0.00'')\<rparr>)\<rparr>"

definition removed :: env where
  "removed = scenario\<lparr>pixDetailCharge :=
     gateway (\<lambda>t. (paid_details t)\<lparr>cd_status := ''REMOVIDA_PELO_USUARIO_RECEBEDOR''\<rparr>)\<rparr>"

definition misrouted :: env where
  "misrouted = scenario\<lparr>pixDetailCharge := gateway (\<lambda>t. paid_details ''zzz999'')\<rparr>"



definition waiting_hub :: sse_service where
  "waiting_hub = addClient ''abc123'' 1 new_SSEService"




definition jane_input :: donation_input where
  "jane_input = \<lparr>in_donorCPF = Str ''123.456.789-01'', in_amount = Num (Fin 50)\<rparr>"

section \<open>The subscriber registry\<close>

lemma addClient_clients: "clients (addClient txId conn s) txId = Some \<lparr>res = conn, keepAlive = conn\<rparr>"
  by (simp add: addClient_def)

lemma addClient_timers: "timers (addClient txId conn s) = insert conn (timers s)"
  by (simp add: addClient_def)

lemma addClient_handler: "close_handlers (addClient txId conn s) conn = Some (txId, conn)"
  by (simp add: addClient_def)

lemma addClient_handler_other:
  "c \<noteq> conn \<Longrightarrow> close_handlers (addClient txId conn s) c = close_handlers s c"
  by (simp add: addClient_def)

text \<open>
  C9, as the code has it. A later \<^verbatim>\<open>addClient\<close> for the same txId replaces the entry, so the
  registry holds the newer connection alone under that txId. When the older connection then
  closes, the entry stored under the txId (the newer connection's) is removed and the timer
  that is cleared is the closing connection's own: the newer connection's keep-alive timer
  stays active although its entry is gone. When the connection that closes is the one the
  entry belongs to, entry and timer go together.
\<close>

theorem close_removes_entry_clears_own_timer:
  assumes "old \<noteq> new"
  shows "clients (addClient txId new (addClient txId old s)) txId = Some \<lparr>res = new, keepAlive = new\<rparr>
       \<and> clients (on_close old (addClient txId new (addClient txId old s))) txId = None
       \<and> timers (on_close old (addClient txId new (addClient txId old s))) = insert new (timers s - {old})
       \<and> clients (on_close new (addClient txId new s)) txId = None
       \<and> timers (on_close new (addClient txId new s)) = timers s - {new}"
proof -
  let ?s1 = "addClient txId old s"
  let ?s2 = "addClient txId new ?s1"
  have h: "close_handlers ?s2 old = Some (txId, old)"
    using assms by (simp add: addClient_handler_other addClient_handler)
  have t: "timers ?s2 = insert new (insert old (timers s))"
    by (simp add: addClient_timers)
  have "timers (on_close old ?s2) = insert new (insert old (timers s)) - {old}"
    using h t by (simp add: on_close_def)
  moreover have "insert new (insert old (timers s)) - {old} = insert new (timers s - {old})"
    using assms by auto
  ultimately have a: "timers (on_close old ?s2) = insert new (timers s - {old})"
    by simp
  have b: "clients (on_close old ?s2) txId = None"
    using h by (simp add: on_close_def)
  have c: "clients (on_close new (addClient txId new s)) txId = None"
    by (simp add: on_close_def addClient_handler)
  have d: "timers (on_close new (addClient txId new s)) = timers s - {new}"
    by (simp add: on_close_def addClient_handler addClient_timers)
  show ?thesis
    using a b c d by (simp add: addClient_clients)
qed

theorem close_removes_entry_clears_own_timer_witness:
  "clients (on_close 1 (addClient ''abc123'' 2 (addClient ''abc123'' 1 new_SSEService))) ''abc123'' = None
   \<and> timers (on_close 1 (addClient ''abc123'' 2 (addClient ''abc123'' 1 new_SSEService))) = {2}"
  using close_removes_entry_clears_own_timer [of 1 2 "''abc123''" new_SSEService]
  by (simp add: new_SSEService_def)

text \<open>
  The claim as stated fails: after connection 1 is replaced by connection 2 under the same
  txId and connection 1 closes, the registry has no entry for the txId, and the timer of the
  entry that was removed (connection 2's) is still active.
\<close>

theorem replaced_entry_timer_not_cleared:
  "clients (on_close 1 (addClient ''abc123'' 2 (addClient ''abc123'' 1 new_SSEService))) ''abc123'' = None
   \<and> 2 \<in> timers (on_close 1 (addClient ''abc123'' 2 (addClient ''abc123'' 1 new_SSEService)))"
  by (simp add: on_close_def addClient_def new_SSEService_def)

section \<open>Charge creation\<close>


lemma createImmediatePixCharge_world:
  "createImmediatePixCharge env pd w = (r, w') \<Longrightarrow>
     donations w' = donations w \<and>
     (\<exists>t body. charge_requests w' = charge_requests w @ [(t, body)] \<and> devedor_cpf body = pd_donorCPF pd)"
  by (auto simp: createImmediatePixCharge_def Let_def split: sum.splits option.splits if_splits)








text \<open>
  C10. Whenever \<^verbatim>\<open>createDonation\<close> succeeds, the \<^verbatim>\<open>donorCPF\<close> of the object it returns is the
  caller's string as supplied, and the one charge request it sent to the gateway carries the
  cleaned form: 11 characters, all digits. The two are equal only when the input had no
  other character.
\<close>

theorem createDonation_returns_raw_tax_id:
  assumes "createDonation env data w = (Inr r, w')"
  shows "\<exists>s t body. in_donorCPF data = Str s \<and> v_donorCPF r = Str s
           \<and> charge_requests w' = charge_requests w @ [(t, body)]
           \<and> devedor_cpf body = remove_non_digits s
           \<and> length (devedor_cpf body) = 11
           \<and> list_all is_digit (devedor_cpf body)
           \<and> ((Str (devedor_cpf body) = v_donorCPF r) = list_all is_digit s)"
proof -
  from assms obtain s where S: "in_donorCPF data = Str s"
    by (cases "in_donorCPF data") (auto simp: createDonation_def Let_def split: if_splits)
  from assms S have L: "length (remove_non_digits s) = 11"
    by (auto simp: createDonation_def Let_def split: if_splits)
  from assms S L obtain p where P: "findByExactCPF env (remove_non_digits s) = Inr (Some p)"
    by (auto simp: createDonation_def Let_def split: if_splits sum.splits option.splits)
  let ?pd = "\<lparr>pd_amount = in_amount data, pd_donorCPF = remove_non_digits s, pd_donorName = p_name p\<rparr>"
  obtain x w2 where C: "createImmediatePixCharge env ?pd w = (x, w2)"
    by (cases "createImmediatePixCharge env ?pd w") auto
  from assms S L P C have W: "w' = w2" and R: "v_donorCPF r = Str s"
    by (auto simp: createDonation_def Let_def split: if_splits sum.splits)
  from createImmediatePixCharge_world [OF C] obtain t body where
    B: "charge_requests w2 = charge_requests w @ [(t, body)]" "devedor_cpf body = remove_non_digits s"
    by auto
  have D: "list_all is_digit (remove_non_digits s)"
    by (simp add: remove_non_digits_def list_all_iff)
  have E: "(remove_non_digits s = s) = list_all is_digit s"
    by (simp add: remove_non_digits_def list_all_iff filter_id_conv)
  show ?thesis using S R W B L D E by auto
qed

theorem createDonation_returns_raw_tax_id_witness:
  "\<exists>r w'. createDonation scenario \<lparr>in_donorCPF = Str ''123.456.789-01'', in_amount = Num (Fin 50)\<rparr> empty_world = (Inr r, w')
     \<and> v_donorCPF r = Str ''123.456.789-01''
     \<and> map (\<lambda>(t, body). devedor_cpf body) (charge_requests w') = [''12345678901'']"
proof -
  have c: "remove_non_digits ''123.456.789-01'' = ''12345678901''"
    by (simp add: remove_non_digits_def is_digit_def)
  obtain r w' where e: "createDonation scenario \<lparr>in_donorCPF = Str ''123.456.789-01'', in_amount = Num (Fin 50)\<rparr> empty_world = (Inr r, w')"
    by (simp add: createDonation_def c scenario_def findByExactCPF_def createImmediatePixCharge_def empty_world_def jane_def Let_def)
  from createDonation_returns_raw_tax_id [OF e] c
  have "v_donorCPF r = Str ''123.456.789-01'' \<and> map (\<lambda>(t, body). devedor_cpf body) (charge_requests w') = [''12345678901'']"
    by (auto simp: empty_world_def)
  then show ?thesis using e by (intro exI [of _ r] exI [of _ w']) simp
qed

section \<open>The reconciliation step: failures\<close>

lemma webhook_catch_external [simp]:
  "webhook_catch (Text t) (ExternalError m) = DatabaseError (ErroInesperadoTransacao t)"
  by (simp add: webhook_catch_def)

lemma webhook_catch_type [simp]:
  "webhook_catch (Text t) (TypeError m) = DatabaseError (ErroInesperadoTransacao t)"
  by (simp add: webhook_catch_def)

lemma webhook_catch_validation [simp]: "webhook_catch t (ValidationError m) = ValidationError m"
  by (simp add: webhook_catch_def)

lemma webhook_catch_not_found [simp]: "webhook_catch t (NotFoundError m) = NotFoundError m"
  by (simp add: webhook_catch_def)

lemma webhook_catch_database [simp]: "webhook_catch t (DatabaseError m) = DatabaseError m"
  by (simp add: webhook_catch_def)

lemma getPixDetails_fails:
  "pixDetailCharge env t = Inl e \<Longrightarrow> \<exists>m. getPixDetails env t = Inl (ExternalError m)"
  by (simp add: getPixDetails_def split: option.splits prod.splits)

lemma getPixDetails_ok:
  "pixDetailCharge env t = Inr cd \<Longrightarrow> getPixDetails env t = Inr cd"
  by (simp add: getPixDetails_def)

lemma gateway_Text [simp]: "gateway details (Text t) = Inr (details t)"
  by (simp add: gateway_def)

lemma find_empty: "findByTxId env empty_world t = (case donations_query_throws env t of None \<Rightarrow> Inr None | Some x \<Rightarrow> Inl (DatabaseError (ErroBuscarPorTxId x)))"
  by (simp add: findByTxId_def empty_world_def split: option.splits)

text \<open>
  C3. The details call fails: \<^verbatim>\<open>getPixDetails\<close> wraps whatever the SDK threw in a new
  \<^verbatim>\<open>ExternalError\<close>, which has no \<^verbatim>\<open>response\<close> property, so the \<^verbatim>\<open>catch\<close> of
  \<^verbatim>\<open>handlePixWebhook\<close> takes neither the rethrow branch nor the \<^verbatim>\<open>error.response\<close> branch:
  whenever the lookup by txId succeeded and the details call fails, what surfaces is the
  \<^verbatim>\<open>DatabaseError\<close> tagged with the transaction id, never an \<^verbatim>\<open>ExternalError\<close>. (The lemmas
  \<open>webhook_catch_validation\<close>, \<open>webhook_catch_not_found\<close> and \<open>webhook_catch_database\<close> are
  the part on errors that propagate unchanged, \<open>webhook_catch_type\<close> the part on anything
  else.)
\<close>

theorem gateway_failure_surfaces_DatabaseError:
  assumes "p_txid payload = Text t" "t \<noteq> []" "findByTxId env w (Text t) = Inr donation"
    "pixDetailCharge env (Text t) = Inl e"
  shows "handlePixWebhook env payload w = (Inl (DatabaseError (ErroInesperadoTransacao t)), w)"
proof -
  from assms(4) obtain m where "getPixDetails env (Text t) = Inl (ExternalError m)"
    using getPixDetails_fails by blast
  then have "confirm_status env (Text t) donation w = (Inl (ExternalError m), w)"
    by (simp add: confirm_status_def)
  then show ?thesis using assms(1-3) by (simp add: handlePixWebhook_def)
qed

theorem gateway_failure_surfaces_DatabaseError_witness:
  "handlePixWebhook gateway_down abc123 empty_world =
     (Inl (DatabaseError (ErroInesperadoTransacao ''abc123'')), empty_world)"
proof -
  have a: "p_txid abc123 = Text ''abc123''" by (simp add: abc123_def)
  have b: "findByTxId gateway_down empty_world (Text ''abc123'') = Inr None"
    by (simp add: find_empty gateway_down_def scenario_def)
  have c: "pixDetailCharge gateway_down (Text ''abc123'') = Inl not_found"
    by (simp add: gateway_down_def)
  show ?thesis using gateway_failure_surfaces_DatabaseError [OF a _ b c] by simp
qed

text \<open>
  C4. When the gateway's reply has no \<^verbatim>\<open>valor\<close> object, reading \<^verbatim>\<open>valor.original\<close> throws
  before the presence check is reached: the webhook fails with the \<^verbatim>\<open>DatabaseError\<close> tagged
  with the transaction id, not with a \<^verbatim>\<open>ValidationError\<close>, and the store is unchanged. (With
  the \<^verbatim>\<open>valor\<close> object there, \<open>lazy_creation_rejected\<close> below is the rejection with
  \<^verbatim>\<open>ValidationError\<close>: payer object absent, tax id or name absent or empty, amount falsy.)
\<close>

theorem absent_valor_surfaces_DatabaseError:
  assumes "p_txid payload = Text t" "t \<noteq> []" "findByTxId env w (Text t) = Inr donation"
    "pixDetailCharge env (Text t) = Inr cd" "cd_valor cd = None"
  shows "handlePixWebhook env payload w = (Inl (DatabaseError (ErroInesperadoTransacao t)), w)"
proof -
  have "confirm_status env (Text t) donation w = (Inl (TypeError (CannotReadProperty ''original'')), w)"
    using assms(4,5) by (simp add: confirm_status_def getPixDetails_ok)
  then show ?thesis using assms(1-3) by (simp add: handlePixWebhook_def)
qed

theorem absent_valor_surfaces_DatabaseError_witness:
  "handlePixWebhook no_valor abc123 empty_world =
     (Inl (DatabaseError (ErroInesperadoTransacao ''abc123'')), empty_world)"
proof -
  have a: "p_txid abc123 = Text ''abc123''" by (simp add: abc123_def)
  have b: "findByTxId no_valor empty_world (Text ''abc123'') = Inr None"
    by (simp add: find_empty no_valor_def scenario_def)
  have c: "pixDetailCharge no_valor (Text ''abc123'') = Inr ((paid_details ''abc123'')\<lparr>cd_valor := None\<rparr>)"
    by (simp add: no_valor_def)
  show ?thesis using absent_valor_surfaces_DatabaseError [OF a _ b c] by simp
qed

lemma lazy_creation_rejected:
  assumes "p_txid payload = Text t" "t \<noteq> []" "findByTxId env w (Text t) = Inr None"
    "pixDetailCharge env (Text t) = Inr cd" "cd_status cd = ''CONCLUIDA''" "cd_valor cd = Some v"
    "(case cd_devedor cd of None \<Rightarrow> True | Some dv \<Rightarrow> \<not> str_truthy (dv_cpf dv) \<or> \<not> str_truthy (dv_nome dv))
       \<or> \<not> num_truthy (parseFloat env v)"
  shows "handlePixWebhook env payload w = (Inl (ValidationError (DadosInsuficientes (cd_devedor cd) v)), w)"
proof -
  have "confirm_status env (Text t) None w = (Inl (ValidationError (DadosInsuficientes (cd_devedor cd) v)), w)"
    using assms(4-7)
    by (cases "cd_devedor cd")
       (auto simp: confirm_status_def getPixDetails_ok Let_def split: option.splits)
  then show ?thesis using assms(1-3) by (simp add: handlePixWebhook_def)
qed

text \<open>
  C8. A confirmed-paid webhook with no prior record, for which the gateway reports an amount
  string that parses to 0 or to \<open>NaN\<close>: \<^verbatim>\<open>handlePixWebhook\<close> raises \<^verbatim>\<open>ValidationError\<close> and
  the store is unchanged.
\<close>

theorem zero_or_NaN_amount_rejected:
  assumes "p_txid payload = Text t" "t \<noteq> []" "findByTxId env w (Text t) = Inr None"
    "pixDetailCharge env (Text t) = Inr cd" "cd_status cd = ''CONCLUIDA''" "cd_valor cd = Some (Str s)"
    "parseFloat_string env s = Fin 0 \<or> parseFloat_string env s = NaN"
  shows "handlePixWebhook env payload w = (Inl (ValidationError (DadosInsuficientes (cd_devedor cd) (Str s))), w)"
proof -
  have "\<not> num_truthy (parseFloat env (Str s))" using assms(7) by auto
  then show ?thesis using assms(1-6) lazy_creation_rejected by blast
qed

theorem zero_or_NaN_amount_rejected_witness:
  "handlePixWebhook zero_amount abc123 empty_world =
     (Inl (ValidationError (DadosInsuficientes
        (Some \<lparr>dv_cpf = Some ''12345678901'', dv_nome = Some ''Jane Doe''\<rparr>) (Str ''0.00''))), empty_world)"
proof -
  have a: "p_txid abc123 = Text ''abc123''" by (simp add: abc123_def)
  have b: "findByTxId zero_amount empty_world (Text ''abc123'') = Inr None"
    by (simp add: find_empty zero_amount_def scenario_def)
  have c: "pixDetailCharge zero_amount (Text ''abc123'') = Inr ((paid_details ''abc123'')\<lparr>cd_valor := Some (Str ''0.00'')\<rparr>)"
    by (simp add: zero_amount_def)
  have d: "parseFloat_string zero_amount ''0.00'' = Fin 0"
    by (simp add: zero_amount_def scenario_def parseFloat_plain_def is_digit_def digits_value_def)
  show ?thesis using zero_or_NaN_amount_rejected [OF a _ b c _ _ disjI1 [OF d]]
    by (simp add: paid_details_def)
qed

section \<open>The reconciliation step: updating a record\<close>


lemma find_in_set: "find P xs = Some x \<Longrightarrow> x \<in> set xs \<and> P x"
  by (induction xs) (auto split: if_splits)


lemma roundtrip_ms:
  assumes "0 \<le> n" "n < 1000000000" "n mod 1000000 = 0"
  shows "fromDate (trunc_div (s * 1000000000 + n) 1000000) = \<lparr>seconds = s, nanoseconds = n\<rparr>"
proof -
  from assms(3) obtain k where k: "n = 1000000 * k" by (auto simp: mod_eq_0_iff_dvd)
  with assms have kb: "0 \<le> k" "k < 1000" by auto
  have e: "s * 1000000000 + n = (s * 1000 + k) * 1000000" using k by simp
  have t: "trunc_div (s * 1000000000 + n) 1000000 = s * 1000 + k"
    unfolding e trunc_div_def by (auto simp: algebra_simps)
  have "(s * 1000 + k) div 1000 = s" using kb by simp
  moreover have "(s * 1000 + k) mod 1000 = k" using kb by simp
  ultimately show ?thesis using t k by (simp add: fromDate_def)
qed



section \<open>Replayed webhooks\<close>

lemma find_None_filter: "find P xs = None \<Longrightarrow> filter P xs = []"
  by (induction xs) (auto split: if_splits)

lemma find_append_new: "find P xs = None \<Longrightarrow> P x \<Longrightarrow> find P (xs @ [x]) = Some x"
  by (induction xs) (auto split: if_splits)

lemma lazy_creation:
  assumes "p_txid payload = Text t" "t \<noteq> []" "donations_query_throws env (Text t) = None"
    "find (\<lambda>(i, d). doc_txId d = t) (donations w) = None"
    "pixDetailCharge env (Text t) = Inr cd" "cd_status cd = ''CONCLUIDA''" "cd_valor cd = Some v"
    "cd_devedor cd = Some dv" "dv_cpf dv = Some cpf" "cpf \<noteq> []" "dv_nome dv = Some nome" "nome \<noteq> []"
    "num_truthy (parseFloat env v)" "partners_where_cpf env cpf = Inr p"
    "donations_write_throws env = None"
  shows "handlePixWebhook env payload w =
           (Inr (Some \<lparr>d_id = Some (auto_id (donations w)), d_donorCPF = cpf, d_donorName = nome,
                 d_donorCIM = (case p of None \<Rightarrow> None
                               | Some x \<Rightarrow> if str_truthy (p_cim x) then p_cim x else None),
                 d_amount = parseFloat env v, d_txId = cd_txid cd, d_locId = cd_loc cd,
                 d_qrCode = cd_location cd, d_copyPaste = cd_pixCopiaECola cd,
                 d_status = ''PAGA'', d_createdAt = None\<rparr>),
            w\<lparr>donations := donations w @
              [(auto_id (donations w),
                \<lparr>doc_donorCPF = cpf, doc_donorName = nome,
                 doc_donorCIM = (case p of None \<Rightarrow> None
                                 | Some x \<Rightarrow> if str_truthy (p_cim x) then p_cim x else None),
                 doc_amount = parseFloat env v, doc_txId = cd_txid cd, doc_locId = cd_loc cd,
                 doc_qrCode = cd_location cd, doc_copyPaste = cd_pixCopiaECola cd,
                 doc_status = ''PAGA'', doc_createdAt = serverTimestamp env\<rparr>)]\<rparr>)"
proof -
  have f: "findByTxId env w (Text t) = Inr None"
    using assms(3,4) by (simp add: findByTxId_def)
  show ?thesis
    using assms(1,2,5-15) f
    by (simp add: handlePixWebhook_def confirm_status_def getPixDetails_ok Let_def
          findByExactCPF_def save_def dataToSave_def)
qed

lemma replay_is_noop:
  assumes "p_txid payload = Text t" "t \<noteq> []" "findByTxId env w (Text t) = Inr (Some d)" "d_status d = ''PAGA''"
    "pixDetailCharge env (Text t) = Inr cd" "cd_status cd = ''CONCLUIDA''" "cd_valor cd = Some v"
  shows "handlePixWebhook env payload w = (Inr (Some d), w)"
  using assms
  by (simp add: handlePixWebhook_def confirm_status_def getPixDetails_ok Let_def)

lemma webhook_pix_single_paid:
  assumes "p_txid payload = Text t" "t \<noteq> []"
    "handlePixWebhook env payload w = (Inr (Some d), w')" "d_status d = ''PAGA''"
  shows "webhook_pix env (Body (Array [Element payload])) (w, sse) =
           (\<lparr>status_code = 200, sent = ProcessadoComSucesso\<rparr>, w',
            notify_one \<lparr>n_txid = d_txId d, n_valor = d_amount d, n_pagador = d_donorName d,
                        n_horario = d_createdAt d, n_status = d_status d\<rparr> sse)"
  using assms by (simp add: webhook_pix_def Let_def notifyDonationPaid_def)

lemma deliveries_notify_one:
  "clients sse (n_txid notice) = Some \<lparr>res = conn, keepAlive = k\<rparr> \<Longrightarrow>
     deliveries conn (notify_one notice sse) = deliveries conn sse + 1"
  by (simp add: notify_one_def deliveries_def)

lemma clients_notify_one: "clients (notify_one notice sse) = clients sse"
  by (simp add: notify_one_def split: option.splits)

text \<open>
  A confirmed-paid payload for a transaction with no row yet, delivered twice to the route
  while a connection is subscribed to its txId: the first call creates the one row of that
  txId, with status PAGA; the second call leaves the store as the first left it; and each of
  the two calls sends the subscriber a \<^verbatim>\<open>donationPaid\<close> event.
\<close>

lemma create_then_replay:
  assumes "p_txid payload = Text t" "t \<noteq> []" "donations_query_throws env (Text t) = None"
    "find (\<lambda>(i, d). doc_txId d = t) (donations w) = None"
    "pixDetailCharge env (Text t) = Inr cd" "cd_status cd = ''CONCLUIDA''" "cd_txid cd = t"
    "cd_valor cd = Some v" "num_truthy (parseFloat env v)"
    "cd_devedor cd = Some dv" "dv_cpf dv = Some cpf" "cpf \<noteq> []" "dv_nome dv = Some nome" "nome \<noteq> []"
    "partners_where_cpf env cpf = Inr p" "donations_write_throws env = None"
    "clients sse t = Some \<lparr>res = conn, keepAlive = k\<rparr>"
    "webhook_pix env (Body (Array [Element payload])) (w, sse) = (r1, w1, sse1)"
    "webhook_pix env (Body (Array [Element payload])) (w1, sse1) = (r2, w2, sse2)"
  shows "status_code r1 = 200 \<and> status_code r2 = 200
       \<and> w2 = w1
       \<and> (\<exists>doc. rows_for t w1 = [doc] \<and> doc_status doc = ''PAGA'')
       \<and> deliveries conn sse1 = deliveries conn sse + 1
       \<and> deliveries conn sse2 = deliveries conn sse + 2"
proof -
  obtain d doc where
    h1: "handlePixWebhook env payload w =
           (Inr (Some d), w\<lparr>donations := donations w @ [(auto_id (donations w), doc)]\<rparr>)"
    and d: "d_status d = ''PAGA''" "d_txId d = cd_txid cd"
    and doc: "doc_status doc = ''PAGA''" "doc_txId doc = cd_txid cd"
    using lazy_creation [OF assms(1-5) assms(6) assms(8) assms(10-14) assms(9) assms(15,16)] by simp
  let ?w1 = "w\<lparr>donations := donations w @ [(auto_id (donations w), doc)]\<rparr>"
  let ?n = "\<lparr>n_txid = d_txId d, n_valor = d_amount d, n_pagador = d_donorName d,
             n_horario = d_createdAt d, n_status = d_status d\<rparr>"
  have c1: "webhook_pix env (Body (Array [Element payload])) (w, sse) =
              (\<lparr>status_code = 200, sent = ProcessadoComSucesso\<rparr>, ?w1, notify_one ?n sse)"
    using webhook_pix_single_paid [OF assms(1,2) h1 d(1)] .
  then have r1: "r1 = \<lparr>status_code = 200, sent = ProcessadoComSucesso\<rparr>" and w1: "w1 = ?w1"
    and s1: "sse1 = notify_one ?n sse"
    using assms(18) by simp_all
  have fnd: "find (\<lambda>(i, d). doc_txId d = t) (donations ?w1) = Some (auto_id (donations w), doc)"
    using find_append_new [OF assms(4), of "(auto_id (donations w), doc)"] doc(2) assms(7) by simp
  let ?d2 = "Donation_of_doc env (auto_id (donations w)) doc"
  have f2: "findByTxId env ?w1 (Text t) = Inr (Some ?d2)"
    using assms(3) fnd by (simp add: findByTxId_def)
  have p2: "d_status ?d2 = ''PAGA''" "d_txId ?d2 = t"
    using doc assms(7) by (simp_all add: Donation_of_doc_def)
  have h2: "handlePixWebhook env payload ?w1 = (Inr (Some ?d2), ?w1)"
    using replay_is_noop [OF assms(1,2) f2 p2(1) assms(5,6,8)] .
  let ?n2 = "\<lparr>n_txid = d_txId ?d2, n_valor = d_amount ?d2, n_pagador = d_donorName ?d2,
             n_horario = d_createdAt ?d2, n_status = d_status ?d2\<rparr>"
  have c2: "webhook_pix env (Body (Array [Element payload])) (?w1, sse1) =
              (\<lparr>status_code = 200, sent = ProcessadoComSucesso\<rparr>, ?w1, notify_one ?n2 sse1)"
    using webhook_pix_single_paid [OF assms(1,2) h2 p2(1)] .
  then have r2: "r2 = \<lparr>status_code = 200, sent = ProcessadoComSucesso\<rparr>" and w2: "w2 = ?w1"
    and s2: "sse2 = notify_one ?n2 sse1"
    using assms(19) w1 by simp_all
  have k1: "clients sse (n_txid ?n) = Some \<lparr>res = conn, keepAlive = k\<rparr>"
    using assms(17) d(2) assms(7) by simp
  have k2: "clients sse1 (n_txid ?n2) = Some \<lparr>res = conn, keepAlive = k\<rparr>"
    using assms(17) p2(2) s1 by (simp add: clients_notify_one)
  have e1: "deliveries conn sse1 = deliveries conn sse + 1"
    using deliveries_notify_one [OF k1] s1 by simp
  have e2: "deliveries conn sse2 = deliveries conn sse + 2"
    using deliveries_notify_one [OF k2] s2 e1 by simp
  have "filter (\<lambda>d. doc_txId d = t) (map snd (donations w)) = []"
    using find_None_filter [OF assms(4)] by (simp add: filter_map o_def case_prod_unfold)
  then have rows: "rows_for t w1 = [doc]"
    using w1 doc(2) assms(7) by (simp add: rows_for_def)
  show ?thesis using r1 r2 w1 w2 rows doc(1) e1 e2 by simp
qed










section \<open>Rows come from webhooks\<close>

lemma createDonation_donations: "donations (snd (createDonation env data w)) = donations w"
proof -
  have "\<And>pd. donations (snd (createImmediatePixCharge env pd w)) = donations w"
    using createImmediatePixCharge_world by (metis prod.collapse)
  then show ?thesis
    by (auto simp: createDonation_def Let_def split: jsval.splits sum.splits option.splits prod.splits if_splits)
       (metis snd_conv)+
qed

lemma auto_id_bound: "i \<in> fst ` set docs \<Longrightarrow> i < auto_id docs"
  unfolding auto_id_def by (induction docs) (force simp: less_Suc_eq_le max_def)+

lemma auto_id_fresh: "auto_id docs \<notin> fst ` set docs"
  using auto_id_bound by blast

lemma set_doc_keys:
  "i \<in> fst ` set docs \<Longrightarrow> map fst (set_doc i data docs) = map fst docs"
  by (auto simp: set_doc_def)

lemma set_doc_txids_kept:
  assumes "distinct (map fst docs)" "(i, doc) \<in> set docs" "doc_txId data = doc_txId doc"
  shows "map (\<lambda>p. doc_txId (snd p)) (set_doc i data docs) = map (\<lambda>p. doc_txId (snd p)) docs"
proof -
  have a: "\<And>x. (i, x) \<in> set docs \<Longrightarrow> doc_txId data = doc_txId x"
    using assms eq_key_imp_eq_value by fastforce
  have "i \<in> fst ` set docs" using assms(2) by force
  then have "set_doc i data docs = map (\<lambda>(j, x). if j = i then (j, data) else (j, x)) docs"
    by (simp add: set_doc_def)
  moreover have "map (\<lambda>p. doc_txId (snd p)) (map (\<lambda>(j, x). if j = i then (j, data) else (j, x)) docs)
      = map (\<lambda>p. doc_txId (snd p)) docs"
    using a by (auto simp: case_prod_unfold)
  ultimately show ?thesis by simp
qed

lemma save_effect:
  assumes "save env d w = (r, w')" "distinct (map fst (donations w))"
    "case d_id d of None \<Rightarrow> True
     | Some i \<Rightarrow> (\<exists>doc. (i, doc) \<in> set (donations w) \<and> doc_txId doc = d_txId d)"
  shows "distinct (map fst (donations w'))
       \<and> (case r of Inl e \<Rightarrow> w' = w | Inr x \<Rightarrow> txids w' = insert (d_txId d) (txids w))"
proof (cases "donations_write_throws env")
  case (Some x)
  then show ?thesis using assms(1,2) by (auto simp: save_def)
next
  case None
  note W = None
  have t: "doc_txId (dataToSave env d) = d_txId d" by (simp add: dataToSave_def)
  show ?thesis
  proof (cases "d_id d")
    case (Some i)
    then obtain doc where D: "(i, doc) \<in> set (donations w)" "doc_txId doc = d_txId d"
      using assms(3) by auto
    have m: "i \<in> fst ` set (donations w)" using D(1) by force
    have e: "donations w' = set_doc i (dataToSave env d) (donations w)" "r = Inr d"
      using assms(1) W Some by (auto simp: save_def)
    have k: "map fst (donations w') = map fst (donations w)"
      using e(1) set_doc_keys [OF m] by simp
    have "map (\<lambda>p. doc_txId (snd p)) (donations w') = map (\<lambda>p. doc_txId (snd p)) (donations w)"
      using e(1) set_doc_txids_kept [OF assms(2) D(1), of "dataToSave env d"] t D(2) by simp
    then have "set (map (\<lambda>p. doc_txId (snd p)) (donations w')) = set (map (\<lambda>p. doc_txId (snd p)) (donations w))"
      by simp
    then have x: "txids w' = txids w" by (simp add: txids_def image_image)
    have "d_txId d \<in> txids w" using D by (force simp: txids_def)
    then show ?thesis using k x e(2) assms(2) by auto
  next
    case N: None
    have e: "donations w' = donations w @
          [(auto_id (donations w), (dataToSave env d)\<lparr>doc_createdAt := serverTimestamp env\<rparr>)]"
      "r = Inr (d\<lparr>d_id := Some (auto_id (donations w))\<rparr>)"
      using assms(1) W N by (auto simp: save_def)
    have "distinct (map fst (donations w'))"
      using e(1) assms(2) auto_id_fresh [of "donations w"] by simp
    moreover have "txids w' = insert (d_txId d) (txids w)"
      using e(1) t by (auto simp: txids_def)
    ultimately show ?thesis using e(2) by simp
  qed
qed

lemma findByTxId_row:
  "findByTxId env w v = Inr (Some d) \<Longrightarrow>
     \<exists>i doc. d_id d = Some i \<and> (i, doc) \<in> set (donations w) \<and> doc_txId doc = d_txId d \<and> Text (d_txId d) = v"
  by (auto simp: findByTxId_def Donation_of_doc_def split: option.splits dest!: find_in_set)

lemma lifted_save:
  assumes "(case save env d w of (Inl e, w') \<Rightarrow> (Inl e, w') | (Inr d', w') \<Rightarrow> (Inr (Some d'), w')) = (r, w')"
    "distinct (map fst (donations w))"
    "case d_id d of None \<Rightarrow> True
     | Some i \<Rightarrow> (\<exists>doc. (i, doc) \<in> set (donations w) \<and> doc_txId doc = d_txId d)"
  shows "distinct (map fst (donations w'))
       \<and> (case r of Inl e \<Rightarrow> w' = w | Inr x \<Rightarrow> txids w' = insert (d_txId d) (txids w))"
proof -
  obtain r0 w0 where s: "save env d w = (r0, w0)" by (cases "save env d w") auto
  from save_effect [OF s assms(2,3)] s assms(1) show ?thesis
    by (cases r0) auto
qed

lemma confirm_status_effect:
  assumes "confirm_status env v donation w = (r, w')" "distinct (map fst (donations w))"
    "case donation of None \<Rightarrow> True
     | Some d \<Rightarrow> (\<exists>i doc. d_id d = Some i \<and> (i, doc) \<in> set (donations w) \<and> doc_txId doc = d_txId d)
                 \<and> Text (d_txId d) = v"
    "case pixDetailCharge env v of Inl e \<Rightarrow> True | Inr cd \<Rightarrow> Text (cd_txid cd) = v"
  shows "distinct (map fst (donations w'))
       \<and> (case r of
            Inl e \<Rightarrow> w' = w
          | Inr x \<Rightarrow> (case pixDetailCharge env v of
                        Inl e \<Rightarrow> False
                      | Inr cd \<Rightarrow> txids w' = (if cd_status cd = ''CONCLUIDA''
                                              then insert (cd_txid cd) (txids w) else txids w)))"
    (is ?concl)
proof (cases "pixDetailCharge env v")
  case (Inl e)
  then obtain m where "getPixDetails env v = Inl (ExternalError m)"
    using getPixDetails_fails by blast
  then show ?thesis using assms(1,2) by (auto simp: confirm_status_def)
next
  case (Inr cd)
  note G = getPixDetails_ok [OF Inr]
  have echo: "Text (cd_txid cd) = v" using assms(4) Inr by simp
  show ?thesis
  proof (cases "cd_valor cd")
    case None
    then show ?thesis using assms(1,2) G by (auto simp: confirm_status_def)
  next
    case (Some valor)
    note V = Some
    show ?thesis
    proof (cases donation)
      case (Some d)
      note D = Some
      have row: "\<exists>doc. (the (d_id d), doc) \<in> set (donations w) \<and> doc_txId doc = d_txId d"
        and idd: "d_id d \<noteq> None" and tx: "d_txId d = cd_txid cd"
        using assms(3) D echo by auto
      have mem: "d_txId d \<in> txids w" using row by (force simp: txids_def)
      have upd: "\<And>st r w'. (case save env (d\<lparr>d_status := st\<rparr>) w of
                      (Inl e, w') \<Rightarrow> (Inl e, w') | (Inr d', w') \<Rightarrow> (Inr (Some d'), w')) = (r, w')
          \<Longrightarrow> distinct (map fst (donations w'))
              \<and> (case r of Inl e \<Rightarrow> w' = w | Inr x \<Rightarrow> txids w' = txids w)"
      proof -
        fix st r w'
        assume a: "(case save env (d\<lparr>d_status := st\<rparr>) w of
                      (Inl e, w') \<Rightarrow> (Inl e, w') | (Inr d', w') \<Rightarrow> (Inr (Some d'), w')) = (r, w')"
        have p: "case d_id (d\<lparr>d_status := st\<rparr>) of None \<Rightarrow> True
               | Some i \<Rightarrow> (\<exists>doc. (i, doc) \<in> set (donations w) \<and> doc_txId doc = d_txId (d\<lparr>d_status := st\<rparr>))"
          using row idd by (cases "d_id d") auto
        from lifted_save [OF a assms(2) p] mem
        show "distinct (map fst (donations w'))
              \<and> (case r of Inl e \<Rightarrow> w' = w | Inr x \<Rightarrow> txids w' = txids w)"
          by (cases r) (auto simp: insert_absorb)
      qed
      show ?thesis
      proof (cases "cd_status cd = ''CONCLUIDA''")
        case True
        show ?thesis
        proof (cases "d_status d = ''PAGA''")
          case P: True
          then have "r = Inr (Some d)" "w' = w"
            using assms(1) G V D True by (auto simp: confirm_status_def Let_def)
          then show ?thesis using assms(2) Inr True mem tx by (auto simp: insert_absorb)
        next
          case False
          then have "(case save env (d\<lparr>d_status := ''PAGA''\<rparr>) w of
                      (Inl e, w') \<Rightarrow> (Inl e, w') | (Inr d', w') \<Rightarrow> (Inr (Some d'), w')) = (r, w')"
            using assms(1) G V D True by (simp add: confirm_status_def Let_def)
          from upd [OF this] show ?thesis using Inr True mem tx
            by (cases r) (auto simp: insert_absorb)
        qed
      next
        case False
        note NC = False
        show ?thesis
        proof (cases "d_status d = cd_status cd")
          case True
          then have "r = Inr (Some d)" "w' = w"
            using assms(1) G V D NC by (auto simp: confirm_status_def Let_def)
          then show ?thesis using assms(2) Inr NC by auto
        next
          case False
          then have "(case save env (d\<lparr>d_status := cd_status cd\<rparr>) w of
                      (Inl e, w') \<Rightarrow> (Inl e, w') | (Inr d', w') \<Rightarrow> (Inr (Some d'), w')) = (r, w')"
            using assms(1) G V D NC by (simp add: confirm_status_def Let_def)
          from upd [OF this] show ?thesis using Inr NC
            by (cases r) auto
        qed
      qed
    next
      case None
      note D = None
      show ?thesis
      proof (cases "cd_status cd = ''CONCLUIDA''")
        case False
        then have "r = Inr None" "w' = w"
          using assms(1) G V D by (auto simp: confirm_status_def Let_def)
        then show ?thesis using assms(2) Inr False by auto
      next
        case True
        define P where "P = (\<lambda>(r :: error + Donation option) w'. distinct (map fst (donations w'))
             \<and> (case r of Inl e \<Rightarrow> w' = w
                 | Inr x \<Rightarrow> txids w' = insert (cd_txid cd) (txids w)))"
        have stay: "\<And>e w'. w = w' \<Longrightarrow> P (Inl e) w'" using assms(2) by (auto simp: P_def)
        have new: "\<And>nd r w'. (case save env nd w of
               (Inl e, w') \<Rightarrow> (Inl e, w') | (Inr d', w') \<Rightarrow> (Inr (Some d'), w')) = (r, w')
          \<Longrightarrow> d_id nd = None \<Longrightarrow> d_txId nd = cd_txid cd \<Longrightarrow> P r w'"
        proof -
          fix nd r w'
          assume a: "(case save env nd w of
               (Inl e, w') \<Rightarrow> (Inl e, w') | (Inr d', w') \<Rightarrow> (Inr (Some d'), w')) = (r, w')"
            and n: "d_id nd = None" "d_txId nd = cd_txid cd"
          have p: "case d_id nd of None \<Rightarrow> True
               | Some i \<Rightarrow> (\<exists>doc. (i, doc) \<in> set (donations w) \<and> doc_txId doc = d_txId nd)"
            using n(1) by simp
          from lifted_save [OF a assms(2) p] show "P r w'" using n(2)
            by (cases r) (auto simp: P_def)
        qed
        have "P r w'"
          using assms(1) G V D True
          by (auto simp: confirm_status_def Let_def
                   split: option.splits if_splits sum.splits intro!: stay dest!: new)
        then show ?thesis using Inr True by (cases r) (auto simp: P_def)
      qed
    qed
  qed
qed

lemma handlePixWebhook_step:
  assumes "gateway_echoes (Webhook env payload)" "distinct (map fst (donations w))"
  shows "distinct (map fst (donations (snd (handlePixWebhook env payload w))))
       \<and> txids (snd (handlePixWebhook env payload w)) = txids w \<union> confirmed (Webhook env payload) w"
proof (cases "txid_truthy (p_txid payload)")
  case False
  then have "handlePixWebhook env payload w = (Inl (ValidationError TxIdAusente), w)"
    by (simp add: handlePixWebhook_def)
  then show ?thesis using assms(2)
    by (auto simp: paid_and_processed_def split: txid_value.splits)
next
  case True
  note T = True
  let ?v = "p_txid payload"
  show ?thesis
  proof (cases "findByTxId env w ?v")
    case (Inl e)
    then have "handlePixWebhook env payload w = (Inl e, w)"
      using T by (simp add: handlePixWebhook_def)
    then show ?thesis using assms(2)
      by (auto simp: paid_and_processed_def split: txid_value.splits)
  next
    case (Inr donation)
    obtain r w' where C: "confirm_status env ?v donation w = (r, w')"
      by (cases "confirm_status env ?v donation w") auto
    have d: "case donation of None \<Rightarrow> True
       | Some d \<Rightarrow> (\<exists>i doc. d_id d = Some i \<and> (i, doc) \<in> set (donations w) \<and> doc_txId doc = d_txId d)
                   \<and> Text (d_txId d) = ?v"
      using findByTxId_row [of env w ?v] Inr by (cases donation) auto
    have e: "case pixDetailCharge env ?v of Inl e \<Rightarrow> True | Inr cd \<Rightarrow> Text (cd_txid cd) = ?v"
      using assms(1) by simp
    note E = confirm_status_effect [OF C assms(2) d e]
    show ?thesis
    proof (cases r)
      case (Inl err)
      then have "handlePixWebhook env payload w = (Inl (webhook_catch ?v err), w')"
        using T Inr C by (simp add: handlePixWebhook_def)
      moreover have "w' = w" using E Inl by simp
      ultimately show ?thesis using assms(2)
        by (auto simp: paid_and_processed_def split: txid_value.splits)
    next
      case R: (Inr x)
      then have h: "handlePixWebhook env payload w = (Inr x, w')"
        using T Inr C by (simp add: handlePixWebhook_def)
      from E R obtain cd where G: "pixDetailCharge env ?v = Inr cd"
        and X: "txids w' = (if cd_status cd = ''CONCLUIDA'' then insert (cd_txid cd) (txids w) else txids w)"
        by (cases "pixDetailCharge env ?v") auto
      have v: "?v = Text (cd_txid cd)" using e G by simp
      have "confirmed (Webhook env payload) w = (if cd_status cd = ''CONCLUIDA'' then {cd_txid cd} else {})"
        using h G v by (simp add: paid_and_processed_def)
      then show ?thesis using E h X by auto
    qed
  qed
qed

lemma step_effect:
  assumes "gateway_echoes e" "distinct (map fst (donations w))"
  shows "distinct (map fst (donations (step e w))) \<and> txids (step e w) = txids w \<union> confirmed e w"
proof (cases e)
  case (Create env data)
  then show ?thesis using assms(2) by (simp add: txids_def createDonation_donations)
next
  case (Webhook env payload)
  then show ?thesis using assms handlePixWebhook_step [of env payload w] by simp
qed

lemma run_effect:
  "list_all gateway_echoes events \<Longrightarrow> distinct (map fst (donations w)) \<Longrightarrow>
     txids (run events w) = txids w \<union> confirmed_txids events w"
proof (induction events arbitrary: w)
  case Nil
  then show ?case by (simp add: run_def)
next
  case (Cons e es)
  have s: "distinct (map fst (donations (step e w)))" "txids (step e w) = txids w \<union> confirmed e w"
    using step_effect [of e w] Cons.prems by simp_all
  have "txids (run es (step e w)) = txids (step e w) \<union> confirmed_txids es (step e w)"
    using Cons.IH [OF _ s(1)] Cons.prems(1) by simp
  then show ?case using s(2) by (auto simp: run_def)
qed

lemma confirmed_observed: "Text ` confirmed e w \<subseteq> webhook_txids [e]"
proof (cases e)
  case (Create env data)
  then show ?thesis by simp
next
  case (Webhook env payload)
  have "\<not> txid_truthy (p_txid payload) \<Longrightarrow> \<not> paid_and_processed env payload w"
    by (simp add: paid_and_processed_def handlePixWebhook_def)
  then show ?thesis using Webhook by (auto split: txid_value.splits if_splits)
qed

lemma webhook_txids_Cons: "webhook_txids (e # es) = webhook_txids [e] \<union> webhook_txids es"
  by (cases e) auto

lemma confirmed_txids_observed: "Text ` confirmed_txids events w \<subseteq> webhook_txids events"
proof (induction events arbitrary: w)
  case Nil
  then show ?case by simp
next
  case (Cons e es)
  have "Text ` confirmed_txids (e # es) w = Text ` confirmed e w \<union> Text ` confirmed_txids es (step e w)"
    by auto
  then show ?case
    using confirmed_observed [of e w] Cons [of "step e w"] webhook_txids_Cons [of e es] by blast
qed

text \<open>
  C2. \<^verbatim>\<open>createDonation\<close> leaves the donations collection as it was; and in every state reached
  from the empty store by charge creations and webhooks, each with any environment in which
  the gateway's details carry the txid asked for, the txIds of the rows are exactly the txids
  of the webhooks that the gateway confirmed as paid and that were processed without an
  error; in particular every row's txId is the txid of a webhook that was processed.
\<close>

theorem rows_only_from_webhooks:
  "donations (snd (createDonation env data w)) = donations w
   \<and> (list_all gateway_echoes events \<longrightarrow>
        txids (run events empty_world) = confirmed_txids events empty_world
        \<and> Text ` txids (run events empty_world) \<subseteq> webhook_txids events)"
proof -
  have d: "distinct (map fst (donations empty_world))" "txids empty_world = {}"
    by (simp_all add: empty_world_def txids_def)
  have "list_all gateway_echoes events \<Longrightarrow>
          txids (run events empty_world) = confirmed_txids events empty_world"
    using run_effect [of events empty_world] d by simp
  then show ?thesis
    using createDonation_donations [of env data w] confirmed_txids_observed [of events empty_world]
    by auto
qed

theorem rows_only_from_webhooks_witness:
  "donations (snd (createDonation scenario jane_input empty_world)) = donations empty_world
   \<and> txids (run [Create scenario jane_input, Webhook removed abc123, Webhook scenario abc123] empty_world)
       = confirmed_txids [Create scenario jane_input, Webhook removed abc123, Webhook scenario abc123] empty_world
   \<and> Text ` txids (run [Create scenario jane_input, Webhook removed abc123, Webhook scenario abc123] empty_world)
       \<subseteq> {Text ''abc123''}"
proof -
  let ?events = "[Create scenario jane_input, Webhook removed abc123, Webhook scenario abc123]"
  have a: "list_all gateway_echoes ?events"
    by (simp add: abc123_def scenario_def removed_def paid_details_def)
  have b: "webhook_txids ?events = {Text ''abc123''}"
    by (simp add: abc123_def)
  note t = rows_only_from_webhooks [of scenario jane_input empty_world ?events]
  have c: "donations (snd (createDonation scenario jane_input empty_world)) = donations empty_world"
    using t by (rule conjunct1)
  have "txids (run ?events empty_world) = confirmed_txids ?events empty_world
        \<and> Text ` txids (run ?events empty_world) \<subseteq> webhook_txids ?events"
    using conjunct2 [OF t] a by (rule mp)
  then show ?thesis using c unfolding b by (rule_tac conjI) assumption+
qed

lemma removed_leaves_nothing:
  "handlePixWebhook removed abc123 empty_world = (Inr None, empty_world)"
  by (simp add: abc123_def handlePixWebhook_def findByTxId_def empty_world_def removed_def
        scenario_def confirm_status_def getPixDetails_def paid_details_def Let_def)

lemma misrouted_creates_other:
  "handlePixWebhook misrouted abc123 empty_world =
     (Inr (Some \<lparr>d_id = Some 1, d_donorCPF = ''12345678901'', d_donorName = ''Jane Doe'',
                 d_donorCIM = Some ''4321'', d_amount = Fin 50, d_txId = ''zzz999'', d_locId = Some 7,
                 d_qrCode = Some ''qr-abc123'', d_copyPaste = Some ''pix-abc123'',
                 d_status = ''PAGA'', d_createdAt = None\<rparr>),
      \<lparr>donations = [(1, (stored_donation ''PAGA'')\<lparr>doc_txId := ''zzz999''\<rparr>)], charge_requests = []\<rparr>)"
  by (simp add: handlePixWebhook_def abc123_def findByTxId_def empty_world_def misrouted_def scenario_def
        confirm_status_def getPixDetails_def paid_details_def Let_def findByExactCPF_def jane_def
        parseFloat_plain_def is_digit_def digits_value_def save_def dataToSave_def auto_id_def
        stored_donation_def)

text \<open>
  A webhook has been processed for abc123, the gateway reporting the charge as removed, and
  the store has no row; and after a webhook for abc123 that the gateway answers with the
  details of the charge zzz999 the store has a row for zzz999, for which no webhook was
  processed.
\<close>

theorem webhook_observed_without_row:
  "Text ''abc123'' \<in> webhook_txids [Webhook removed abc123]
   \<and> txids (run [Webhook removed abc123] empty_world) = {}
   \<and> txids (run [Webhook misrouted abc123] empty_world) = {''zzz999''}
   \<and> webhook_txids [Webhook misrouted abc123] = {Text ''abc123''}"
proof -
  have a: "webhook_txids [Webhook removed abc123] = {Text ''abc123''}"
    "webhook_txids [Webhook misrouted abc123] = {Text ''abc123''}"
    by (simp_all add: abc123_def)
  have b: "run [Webhook removed abc123] empty_world = empty_world"
    by (simp add: run_def removed_leaves_nothing)
  have c: "run [Webhook misrouted abc123] empty_world =
      \<lparr>donations = [(1, (stored_donation ''PAGA'')\<lparr>doc_txId := ''zzz999''\<rparr>)], charge_requests = []\<rparr>"
    by (simp add: run_def misrouted_creates_other)
  show ?thesis unfolding a b c by (simp add: txids_def empty_world_def)
qed

section \<open>The webhook route: error containment\<close>

lemma txid_string_printable: "v \<noteq> Unprintable \<Longrightarrow> \<exists>str. txid_string v = Inr str"
  by (cases v) auto

lemma pix_loop_contained:
  "list_all printable ps \<Longrightarrow> fst (pix_loop env ps st) = None"
proof (induction env ps st rule: pix_loop.induct)
  case (1 env st)
  then show ?case by simp
next
  case (2 env rest st)
  then show ?case by simp
next
  case (3 env pixPayload rest st)
  from "3.prems" obtain str where "txid_string (p_txid pixPayload) = Inr str"
    using txid_string_printable by auto
  then show ?case using 3
    by (auto split: prod.splits sum.splits)
qed

lemma webhook_pix_contained:
  assumes "list_all printable ps"
  shows "status_code (fst (webhook_pix env (Body (Array ps)) (w, sse))) = 200"
proof -
  let ?st = "\<lparr>ls_world = w, successfulProcesses = 0, failedTxIds = [], processedDonationsForSSE = []\<rparr>"
  obtain e st' where L: "pix_loop env ps ?st = (e, st')" by (cases "pix_loop env ps ?st") auto
  then have "e = None" using pix_loop_contained [OF assms, of env ?st] by simp
  then show ?thesis using L by (auto simp: webhook_pix_def Let_def)
qed

lemma pix_loop_skips_missing_txid:
  "\<not> txid_truthy (p_txid p) \<Longrightarrow> pix_loop env (Element p # rest) st = pix_loop env rest st"
  by simp

lemma pix_loop_failure_recorded:
  "p_txid p = Text t \<Longrightarrow> t \<noteq> [] \<Longrightarrow> handlePixWebhook env p (ls_world st) = (Inl e, w') \<Longrightarrow>
     pix_loop env (Element p # rest) st =
       pix_loop env rest (st\<lparr>ls_world := w', failedTxIds := failedTxIds st @ [t]\<rparr>)"
  by simp

text \<open>
  C6. Two ways in which an element of the batch makes the route answer 500. Reading the
  \<^verbatim>\<open>txid\<close> of a \<^verbatim>\<open>null\<close> element throws before the per-item \<^verbatim>\<open>try\<close>: the answer is 500 and
  no element after it is processed. And when \<^verbatim>\<open>handlePixWebhook\<close> fails for an element whose
  txid has no string conversion, the template literal of the per-item \<^verbatim>\<open>catch\<close> throws in
  its turn: the answer is 500 again. (For a batch without such elements
  \<open>webhook_pix_contained\<close> is the answer 200, \<open>pix_loop_skips_missing_txid\<close> the skipping of
  an element without txid and \<open>pix_loop_failure_recorded\<close> the failure pushed to
  \<^verbatim>\<open>failedTxIds\<close>, the rest of the batch being processed in both cases.)
\<close>

theorem null_element_or_unprintable_txid_yields_500:
  "webhook_pix env (Body (Array (Nullish # rest))) (w, sse)
     = (\<lparr>status_code = 500, sent = ErroInternoWebhook\<rparr>, w, sse)
   \<and> (p_txid payload = Unprintable \<and> handlePixWebhook env payload w = (Inl err, w')
        \<longrightarrow> webhook_pix env (Body (Array (Element payload # rest))) (w, sse)
              = (\<lparr>status_code = 500, sent = ErroInternoWebhook\<rparr>, w', sse))"
  by (simp add: webhook_pix_def)

lemma unprintable_fails:
  "handlePixWebhook gateway_down unprintable empty_world
     = (Inl (TypeError CannotConvertToPrimitive), empty_world)"
  by (simp add: handlePixWebhook_def unprintable_def findByTxId_def empty_world_def gateway_down_def
        scenario_def confirm_status_def getPixDetails_def not_found_def webhook_catch_def)

theorem null_element_or_unprintable_txid_yields_500_witness:
  "webhook_pix scenario (Body (Array [Nullish, Element abc123])) (empty_world, waiting_hub)
     = (\<lparr>status_code = 500, sent = ErroInternoWebhook\<rparr>, empty_world, waiting_hub)
   \<and> webhook_pix gateway_down (Body (Array [Element unprintable, Element abc123])) (empty_world, waiting_hub)
     = (\<lparr>status_code = 500, sent = ErroInternoWebhook\<rparr>, empty_world, waiting_hub)"
proof -
  have a: "p_txid unprintable = Unprintable" by (simp add: unprintable_def)
  show ?thesis
    using null_element_or_unprintable_txid_yields_500 [of scenario "[Element abc123]" empty_world waiting_hub]
      null_element_or_unprintable_txid_yields_500 [of gateway_down "[Element abc123]" empty_world waiting_hub
        unprintable "TypeError CannotConvertToPrimitive" empty_world]
      a unprintable_fails
    by simp
qed

end
